theory Spec2Isabelle
  imports
    Complex_Main
    "HOL-Library.AList"
    "HOL-Library.Option_ord"
    "HOL-Library.Sublist"
    "HOL-Library.Char_ord"
    "HOL-Library.List_Lexorder"
begin

section \<open>The weather service of \<^verbatim>\<open>backend/weather_service.py\<close>\<close>

text \<open>
  The development embeds the class \<^verbatim>\<open>WeatherService\<close>: the two formatting functions
  (the normalizer), \<^verbatim>\<open>_get_forecast_summary\<close> (the aggregator),
  \<^verbatim>\<open>_generate_agricultural_suggestions\<close> (the rule engine) and
  \<^verbatim>\<open>get_agricultural_suggestions\<close> (the orchestrator).

  Conventions of the embedding.
  \<^item> JSON numbers are exact reals: the rounding of Python's floats is not modelled, so
    every sum and mean below is the mathematical one.
  \<^item> A Python exception is a value of \<open>py_error\<close>; a function that can raise returns
    \<open>py_error + 'a\<close>, with \<open>Inl\<close> the exception.
  \<^item> A Python \<^verbatim>\<open>dict\<close> whose iteration order matters is an association list with
    distinct keys in insertion order; \<open>AList.update\<close> is the assignment
    \<^verbatim>\<open>d[k] = v\<close>: it overwrites in place when the key is there and appends otherwise.
  \<^item> The dictionaries with a fixed set of keys (a formatted sample, a daily summary,
    the suggestions) are records whose fields are the keys.
\<close>

subsection \<open>Exceptions\<close>

datatype py_error =
    KeyError string
  | IndexError
  | ValueError string
  | ZeroDivisionError

definition py_bind :: "py_error + 'a \<Rightarrow> ('a \<Rightarrow> py_error + 'b) \<Rightarrow> py_error + 'b" where
  "py_bind m f = (case m of Inl e \<Rightarrow> Inl e | Inr x \<Rightarrow> f x)"

subsection \<open>Formatted samples\<close>

text \<open>
  The keys that the dictionary built by \<^verbatim>\<open>_format_current_weather\<close> and each
  dictionary built by \<^verbatim>\<open>_format_forecast_data\<close> have in common, then the keys of
  each.
\<close>

record weather_fields =
  temperature :: real
  feels_like :: real
  humidity :: real
  pressure :: real
  description :: string
  main :: string
  icon :: string
  wind_speed :: real
  wind_direction :: real

record current_weather = weather_fields +
  visibility :: real
  uv_index :: real
  city_name :: string
  country :: string
  sunrise :: string
  sunset :: string
  timestamp :: string

record forecast_item = weather_fields +
  datetime :: string
  precipitation_probability :: real
  rain :: real
  snow :: real

subsection \<open>The aggregator: \<^verbatim>\<open>_get_forecast_summary\<close>\<close>

text \<open>
  The per-date dictionary starts with the keys \<^verbatim>\<open>date, min_temp, max_temp, total_rain,
  avg_humidity, conditions, count\<close>; the finalizing loop adds \<^verbatim>\<open>main_condition\<close> and
  deletes \<^verbatim>\<open>conditions\<close> and \<^verbatim>\<open>count\<close>.
\<close>

record summary_fields =
  date :: string
  min_temp :: real
  max_temp :: real
  total_rain :: real
  avg_humidity :: real

record running_summary = summary_fields +
  conditions :: "string list"
  count :: nat

record daily_summary = summary_fields +
  main_condition :: string

text \<open>\<^verbatim>\<open>item['datetime'][:10]\<close>\<close>

definition date_key :: "forecast_item \<Rightarrow> string" where
  "date_key item = take 10 (datetime item)"

text \<open>The dictionary stored for a date that is not yet in \<^verbatim>\<open>daily_summaries\<close>.\<close>

definition new_summary :: "forecast_item \<Rightarrow> running_summary" where
  "new_summary item =
     \<lparr>date = date_key item, min_temp = temperature item, max_temp = temperature item,
      total_rain = 0, avg_humidity = 0, conditions = [], count = 0\<rparr>"

text \<open>The six updates of \<^verbatim>\<open>summary\<close> in the body of the first loop.\<close>

definition add_item :: "forecast_item \<Rightarrow> running_summary \<Rightarrow> running_summary" where
  "add_item item summary =
     summary\<lparr>min_temp := min (min_temp summary) (temperature item),
             max_temp := max (max_temp summary) (temperature item),
             total_rain := total_rain summary + rain item,
             avg_humidity := avg_humidity summary + humidity item,
             conditions := conditions summary @ [main item],
             count := count summary + 1\<rparr>"

text \<open>
  One iteration of the first loop. \<^verbatim>\<open>summary = daily_summaries[date]\<close> is a reference
  into the dictionary, so the updates are written back under the same key.
\<close>

definition accumulate_item ::
    "forecast_item \<Rightarrow> (string \<times> running_summary) list
      \<Rightarrow> py_error + (string \<times> running_summary) list" where
  "accumulate_item item daily_summaries =
     (let d = date_key item;
          daily_summaries1 =
            (if map_of daily_summaries d = None
             then AList.update d (new_summary item) daily_summaries
             else daily_summaries)
      in case map_of daily_summaries1 d of
           None \<Rightarrow> Inl (KeyError d)
         | Some summary \<Rightarrow> Inr (AList.update d (add_item item summary) daily_summaries1))"

fun accumulate ::
    "forecast_item list \<Rightarrow> (string \<times> running_summary) list
      \<Rightarrow> py_error + (string \<times> running_summary) list" where
  "accumulate [] daily_summaries = Inr daily_summaries"
| "accumulate (item # forecast) daily_summaries =
     py_bind (accumulate_item item daily_summaries) (accumulate forecast)"

text \<open>
  \<^verbatim>\<open>condition_counts[condition] = condition_counts.get(condition, 0) + 1\<close>, for each
  condition in turn.
\<close>

fun count_conditions :: "string list \<Rightarrow> (string \<times> nat) list \<Rightarrow> (string \<times> nat) list" where
  "count_conditions [] condition_counts = condition_counts"
| "count_conditions (c # cs) condition_counts =
     count_conditions cs
       (AList.update c ((case map_of condition_counts c of None \<Rightarrow> 0 | Some n \<Rightarrow> n) + 1)
          condition_counts)"

text \<open>
  Python's \<^verbatim>\<open>max(iterable, key=f)\<close>: \<^verbatim>\<open>ValueError\<close> on an empty iterable; otherwise
  the running maximum is replaced only by a strictly greater key, so the first of several
  maximal items is returned.
\<close>

definition py_max :: "('a \<Rightarrow> 'b::linorder) \<Rightarrow> 'a list \<Rightarrow> py_error + 'a" where
  "py_max key xs =
     (case xs of
        [] \<Rightarrow> Inl (ValueError ''max() arg is an empty sequence'')
      | x # rest \<Rightarrow> Inr (foldl (\<lambda>best y. if key best < key y then y else best) x rest))"

text \<open>
  The most common condition: \<^verbatim>\<open>max(condition_counts, key=condition_counts.get)\<close>
  iterates the keys in insertion order; \<^verbatim>\<open>condition_counts.get\<close> is \<open>map_of\<close>.
\<close>

definition most_common :: "string list \<Rightarrow> py_error + string" where
  "most_common cs =
     (let condition_counts = count_conditions cs []
      in py_max (map_of condition_counts) (map fst condition_counts))"

text \<open>One iteration of the finalizing loop.\<close>

definition finalize_summary :: "running_summary \<Rightarrow> py_error + daily_summary" where
  "finalize_summary summary =
     (if count summary = 0 then Inl ZeroDivisionError
      else py_bind (most_common (conditions summary)) (\<lambda>c.
        Inr \<lparr>date = date summary, min_temp = min_temp summary, max_temp = max_temp summary,
             total_rain = total_rain summary,
             avg_humidity = avg_humidity summary / real (count summary),
             main_condition = c\<rparr>))"

fun finalize :: "(string \<times> running_summary) list \<Rightarrow> py_error + daily_summary list" where
  "finalize [] = Inr []"
| "finalize ((d, summary) # rest) =
     py_bind (finalize_summary summary) (\<lambda>s.
     py_bind (finalize rest) (\<lambda>ss. Inr (s # ss)))"

text \<open>
  The function returns the empty dictionary \<^verbatim>\<open>{}\<close> for an empty forecast and a list
  otherwise, so its result type has both.
\<close>

datatype forecast_summary = EmptyDict | SummaryList "daily_summary list"

definition get_forecast_summary :: "forecast_item list \<Rightarrow> py_error + forecast_summary" where
  "get_forecast_summary forecast =
     (if forecast = [] then Inr EmptyDict
      else py_bind (accumulate forecast []) (\<lambda>daily_summaries.
           py_bind (finalize daily_summaries) (\<lambda>ss. Inr (SummaryList ss))))"

subsection \<open>Strings\<close>

text \<open>
  \<^verbatim>\<open>str.lower\<close> and \<^verbatim>\<open>str.title\<close> on ASCII text (the provider's descriptions are
  English, no \<^verbatim>\<open>lang\<close> parameter is sent); every other byte is left as it is.
  \<^verbatim>\<open>title\<close> upper-cases a letter that follows a character without case and lower-cases
  a letter that follows a letter. Python's substring test \<^verbatim>\<open>a in b\<close> is
  \<^term>\<open>sublist a b\<close>.
\<close>

definition is_upper :: "char \<Rightarrow> bool" where
  "is_upper c \<longleftrightarrow> 65 \<le> (of_char c :: nat) \<and> (of_char c :: nat) \<le> 90"

definition is_lower :: "char \<Rightarrow> bool" where
  "is_lower c \<longleftrightarrow> 97 \<le> (of_char c :: nat) \<and> (of_char c :: nat) \<le> 122"

definition lower_char :: "char \<Rightarrow> char" where
  "lower_char c = (if is_upper c then char_of (of_char c + 32 :: nat) else c)"

definition upper_char :: "char \<Rightarrow> char" where
  "upper_char c = (if is_lower c then char_of (of_char c - 32 :: nat) else c)"

definition lower :: "string \<Rightarrow> string" where
  "lower s = map lower_char s"

fun title_from :: "bool \<Rightarrow> string \<Rightarrow> string" where
  "title_from previous_is_cased [] = []"
| "title_from previous_is_cased (c # cs) =
     (if previous_is_cased then lower_char c else upper_char c)
       # title_from (is_upper c \<or> is_lower c) cs"

definition title :: "string \<Rightarrow> string" where
  "title s = title_from False s"

subsection \<open>Dates and times\<close>

text \<open>
  \<^verbatim>\<open>datetime.fromtimestamp(ts)\<close> without a \<^verbatim>\<open>tz\<close> argument gives the naive local
  time of the machine the service runs on. The zone is a parameter \<open>utcoffset\<close>: the
  seconds east of UTC in force at a POSIX time. The calendar is the proleptic Gregorian
  one; a year outside 1..9999 raises \<^verbatim>\<open>ValueError\<close> (the narrower limits of a
  platform's \<^verbatim>\<open>localtime\<close> are not modelled). The provider's timestamps are whole
  seconds, so \<^verbatim>\<open>isoformat()\<close> prints no microseconds.
\<close>

record py_datetime =
  year :: int
  month :: int
  day :: int
  hour :: int
  minute :: int
  second :: int

definition civil_from_days :: "int \<Rightarrow> int \<times> int \<times> int" where
  "civil_from_days z0 =
     (let z = z0 + 719468;
          era = z div 146097;
          doe = z - era * 146097;
          yoe = (doe - doe div 1460 + doe div 36524 - doe div 146096) div 365;
          doy = doe - (365 * yoe + yoe div 4 - yoe div 100);
          mp = (5 * doy + 2) div 153;
          d = doy - (153 * mp + 2) div 5 + 1;
          m = (if mp < 10 then mp + 3 else mp - 9);
          y = yoe + era * 400 + (if m \<le> 2 then 1 else 0)
      in (y, m, d))"

definition digit :: "int \<Rightarrow> char" where
  "digit n = char_of (48 + nat n)"

fun show_nat :: "nat \<Rightarrow> string" where
  "show_nat n = (if n < 10 then [digit (int n)] else show_nat (n div 10) @ [digit (int (n mod 10))])"

definition show_int :: "int \<Rightarrow> string" where
  "show_int i = (if i < 0 then CHR ''-'' # show_nat (nat (- i)) else show_nat (nat i))"

definition pad2 :: "int \<Rightarrow> string" where
  "pad2 n = [digit (n div 10 mod 10), digit (n mod 10)]"

definition pad4 :: "int \<Rightarrow> string" where
  "pad4 n = [digit (n div 1000 mod 10), digit (n div 100 mod 10), digit (n div 10 mod 10),
             digit (n mod 10)]"

definition fromtimestamp :: "(int \<Rightarrow> int) \<Rightarrow> int \<Rightarrow> py_error + py_datetime" where
  "fromtimestamp utcoffset ts =
     (let local = ts + utcoffset ts;
          ymd = civil_from_days (local div 86400);
          y = fst ymd;
          sod = local mod 86400
      in if y < 1 \<or> 9999 < y
         then Inl (ValueError (''year '' @ show_int y @ '' is out of range''))
         else Inr \<lparr>year = y, month = fst (snd ymd), day = snd (snd ymd),
                   hour = sod div 3600, minute = sod mod 3600 div 60, second = sod mod 60\<rparr>)"

definition isoformat :: "py_datetime \<Rightarrow> string" where
  "isoformat t =
     pad4 (year t) @ ''-'' @ pad2 (month t) @ ''-'' @ pad2 (day t) @ ''T'' @
     pad2 (hour t) @ '':'' @ pad2 (minute t) @ '':'' @ pad2 (second t)"

text \<open>A zone whose offset never changes, and the UTC calendar date of a POSIX time.\<close>

definition fixed_offset :: "int \<Rightarrow> int \<Rightarrow> int" where
  "fixed_offset secs ts = secs"


subsection \<open>The provider's payloads\<close>

text \<open>
  A payload is a JSON object; what matters to the normalizer is which keys are there. Each
  key is a field that is \<open>None\<close> when the key is absent, and a key that is present
  carries a value of the type the provider documents (a number, a string, a nested
  object, whole seconds for a timestamp). One record has the top-level keys of both the
  current observation and a forecast entry.
\<close>

record raw_main =
  r_temp :: "real option"
  r_feels_like :: "real option"
  r_humidity :: "real option"
  r_pressure :: "real option"

record raw_weather =
  r_description :: "string option"
  r_main :: "string option"
  r_icon :: "string option"

record raw_wind =
  r_speed :: "real option"
  r_deg :: "real option"

record raw_sys =
  r_country :: "string option"
  r_sunrise :: "int option"
  r_sunset :: "int option"

record raw_precipitation =
  r_3h :: "real option"

record raw_observation =
  o_dt :: "int option"
  o_main :: "raw_main option"
  o_weather :: "raw_weather list option"
  o_wind :: "raw_wind option"
  o_visibility :: "real option"
  o_uvi :: "real option"
  o_name :: "string option"
  o_sys :: "raw_sys option"
  o_pop :: "real option"
  o_rain :: "raw_precipitation option"
  o_snow :: "raw_precipitation option"

record raw_forecast =
  o_list :: "raw_observation list option"

text \<open>\<^verbatim>\<open>d[k]\<close>, \<^verbatim>\<open>xs[0]\<close> and \<^verbatim>\<open>d.get(k, default)\<close>.\<close>

definition subscript :: "string \<Rightarrow> 'a option \<Rightarrow> py_error + 'a" where
  "subscript k field = (case field of None \<Rightarrow> Inl (KeyError k) | Some v \<Rightarrow> Inr v)"

definition first_item :: "'a list \<Rightarrow> py_error + 'a" where
  "first_item xs = (case xs of [] \<Rightarrow> Inl IndexError | x # _ \<Rightarrow> Inr x)"

definition get_default :: "'a option \<Rightarrow> 'a \<Rightarrow> 'a" where
  "get_default field dflt = (case field of None \<Rightarrow> dflt | Some v \<Rightarrow> v)"

text \<open>
  \<^verbatim>\<open>data['main'][k]\<close>, \<^verbatim>\<open>data['weather'][0][k]\<close>, \<^verbatim>\<open>data['wind'][k]\<close> and
  \<^verbatim>\<open>data['sys'][k]\<close>: the source writes each path out in every entry of the
  dictionary it builds.
\<close>

definition main_of :: "raw_observation \<Rightarrow> string \<Rightarrow> (raw_main \<Rightarrow> 'a option) \<Rightarrow> py_error + 'a" where
  "main_of data k field = py_bind (subscript ''main'' (o_main data)) (\<lambda>m. subscript k (field m))"

definition weather0_of ::
    "raw_observation \<Rightarrow> string \<Rightarrow> (raw_weather \<Rightarrow> 'a option) \<Rightarrow> py_error + 'a" where
  "weather0_of data k field =
     py_bind (subscript ''weather'' (o_weather data)) (\<lambda>ws.
     py_bind (first_item ws) (\<lambda>w. subscript k (field w)))"

definition wind_of :: "raw_observation \<Rightarrow> (raw_wind \<Rightarrow> py_error + 'a) \<Rightarrow> py_error + 'a" where
  "wind_of data f = py_bind (subscript ''wind'' (o_wind data)) f"

definition sys_of :: "raw_observation \<Rightarrow> string \<Rightarrow> (raw_sys \<Rightarrow> 'a option) \<Rightarrow> py_error + 'a" where
  "sys_of data k field = py_bind (subscript ''sys'' (o_sys data)) (\<lambda>s. subscript k (field s))"

subsection \<open>The normalizer: \<^verbatim>\<open>_format_current_weather\<close> and \<^verbatim>\<open>_format_forecast_data\<close>\<close>

text \<open>The entries of the dictionary are evaluated in the order they are written.\<close>

definition format_current_weather ::
    "(int \<Rightarrow> int) \<Rightarrow> raw_observation \<Rightarrow> py_error + current_weather" where
  "format_current_weather utcoffset data =
     py_bind (main_of data ''temp'' r_temp) (\<lambda>v_temperature.
     py_bind (main_of data ''feels_like'' r_feels_like) (\<lambda>v_feels_like.
     py_bind (main_of data ''humidity'' r_humidity) (\<lambda>v_humidity.
     py_bind (main_of data ''pressure'' r_pressure) (\<lambda>v_pressure.
     py_bind (weather0_of data ''description'' r_description) (\<lambda>v_description.
     py_bind (weather0_of data ''main'' r_main) (\<lambda>v_main.
     py_bind (weather0_of data ''icon'' r_icon) (\<lambda>v_icon.
     py_bind (wind_of data (\<lambda>w. subscript ''speed'' (r_speed w))) (\<lambda>v_wind_speed.
     py_bind (wind_of data (\<lambda>w. Inr (get_default (r_deg w) 0))) (\<lambda>v_wind_direction.
     py_bind (subscript ''name'' (o_name data)) (\<lambda>v_city_name.
     py_bind (sys_of data ''country'' r_country) (\<lambda>v_country.
     py_bind (py_bind (sys_of data ''sunrise'' r_sunrise) (fromtimestamp utcoffset)) (\<lambda>v_sunrise.
     py_bind (py_bind (sys_of data ''sunset'' r_sunset) (fromtimestamp utcoffset)) (\<lambda>v_sunset.
     py_bind (py_bind (subscript ''dt'' (o_dt data)) (fromtimestamp utcoffset)) (\<lambda>v_timestamp.
       Inr \<lparr>temperature = v_temperature,
            feels_like = v_feels_like,
            humidity = v_humidity,
            pressure = v_pressure,
            description = title v_description,
            main = v_main,
            icon = v_icon,
            wind_speed = v_wind_speed,
            wind_direction = v_wind_direction,
            visibility = get_default (o_visibility data) 0 / 1000,
            uv_index = get_default (o_uvi data) 0,
            city_name = v_city_name,
            country = v_country,
            sunrise = isoformat v_sunrise,
            sunset = isoformat v_sunset,
            timestamp = isoformat v_timestamp\<rparr>))))))))))))))"

text \<open>One entry of the forecast's \<^verbatim>\<open>list\<close>; \<^verbatim>\<open>item.get('rain', {}).get('3h', 0)\<close>.\<close>

definition precipitation_3h :: "raw_precipitation option \<Rightarrow> real" where
  "precipitation_3h field =
     get_default (r_3h (get_default field \<lparr>r_3h = None\<rparr>)) 0"

definition format_forecast_item ::
    "(int \<Rightarrow> int) \<Rightarrow> raw_observation \<Rightarrow> py_error + forecast_item" where
  "format_forecast_item utcoffset item =
     py_bind (py_bind (subscript ''dt'' (o_dt item)) (fromtimestamp utcoffset)) (\<lambda>v_datetime.
     py_bind (main_of item ''temp'' r_temp) (\<lambda>v_temperature.
     py_bind (main_of item ''feels_like'' r_feels_like) (\<lambda>v_feels_like.
     py_bind (main_of item ''humidity'' r_humidity) (\<lambda>v_humidity.
     py_bind (main_of item ''pressure'' r_pressure) (\<lambda>v_pressure.
     py_bind (weather0_of item ''description'' r_description) (\<lambda>v_description.
     py_bind (weather0_of item ''main'' r_main) (\<lambda>v_main.
     py_bind (weather0_of item ''icon'' r_icon) (\<lambda>v_icon.
     py_bind (wind_of item (\<lambda>w. subscript ''speed'' (r_speed w))) (\<lambda>v_wind_speed.
     py_bind (wind_of item (\<lambda>w. Inr (get_default (r_deg w) 0))) (\<lambda>v_wind_direction.
       Inr \<lparr>temperature = v_temperature,
            feels_like = v_feels_like,
            humidity = v_humidity,
            pressure = v_pressure,
            description = title v_description,
            main = v_main,
            icon = v_icon,
            wind_speed = v_wind_speed,
            wind_direction = v_wind_direction,
            datetime = isoformat v_datetime,
            precipitation_probability = get_default (o_pop item) 0 * 100,
            rain = precipitation_3h (o_rain item),
            snow = precipitation_3h (o_snow item)\<rparr>))))))))))"

fun format_forecast_items ::
    "(int \<Rightarrow> int) \<Rightarrow> raw_observation list \<Rightarrow> py_error + forecast_item list" where
  "format_forecast_items utcoffset [] = Inr []"
| "format_forecast_items utcoffset (item # items) =
     py_bind (format_forecast_item utcoffset item) (\<lambda>f.
     py_bind (format_forecast_items utcoffset items) (\<lambda>fs. Inr (f # fs)))"

definition format_forecast_data ::
    "(int \<Rightarrow> int) \<Rightarrow> raw_forecast \<Rightarrow> py_error + forecast_item list" where
  "format_forecast_data utcoffset data =
     py_bind (subscript ''list'' (o_list data)) (format_forecast_items utcoffset)"

subsection \<open>The rule engine: \<^verbatim>\<open>_generate_agricultural_suggestions\<close>\<close>

record suggestions =
  immediate_actions :: "string list"
  weekly_planning :: "string list"
  crop_care :: "string list"
  irrigation :: "string list"
  pest_disease_alerts :: "string list"

text \<open>
  The function appends to the five lists in six groups, one after the other; each group
  is a definition here, named after the comment that opens it in the source.
\<close>

definition temperature_based :: "real \<Rightarrow> suggestions \<Rightarrow> suggestions" where
  "temperature_based temp s =
     (if temp < 5 then
        s\<lparr>immediate_actions := immediate_actions s @ [''Protect sensitive crops from frost damage''],
          crop_care := crop_care s @
            [''Consider covering young plants or moving potted plants indoors'']\<rparr>
      else if temp > 35 then
        s\<lparr>immediate_actions := immediate_actions s @
            [''Provide shade for sensitive crops during peak heat''],
          irrigation := irrigation s @
            [''Increase watering frequency due to high temperatures'']\<rparr>
      else s)"

definition humidity_based :: "real \<Rightarrow> suggestions \<Rightarrow> suggestions" where
  "humidity_based hum s =
     (if hum > 80 then
        s\<lparr>pest_disease_alerts := pest_disease_alerts s @
            [''High humidity increases fungal disease risk - monitor crops closely''],
          crop_care := crop_care s @ [''Ensure good air circulation around plants'']\<rparr>
      else if hum < 30 then
        s\<lparr>irrigation := irrigation s @ [''Low humidity may increase water needs'']\<rparr>
      else s)"

definition condition_based :: "string \<Rightarrow> suggestions \<Rightarrow> suggestions" where
  "condition_based descr s =
     (if sublist ''rain'' descr then
        s\<lparr>immediate_actions := immediate_actions s @
            [''Postpone irrigation - natural rainfall occurring''],
          crop_care := crop_care s @ [''Check for waterlogging in low-lying areas'']\<rparr>
      else if sublist ''clear'' descr \<or> sublist ''sunny'' descr then
        s\<lparr>irrigation := irrigation s @
            [''Good conditions for watering early morning or evening''],
          weekly_planning := weekly_planning s @
            [''Ideal weather for field work and harvesting'']\<rparr>
      else s)"

definition wind_based :: "real \<Rightarrow> suggestions \<Rightarrow> suggestions" where
  "wind_based speed s =
     (if speed > 10 then
        s\<lparr>immediate_actions := immediate_actions s @
            [''Secure tall plants and check for wind damage''],
          crop_care := crop_care s @
            [''Avoid spraying pesticides or fertilizers in windy conditions'']\<rparr>
      else s)"

text \<open>
  \<^verbatim>\<open>if forecast_summary:\<close> holds for a non-empty list only; the slice
  \<^verbatim>\<open>forecast_summary[:3]\<close> is \<open>take 3\<close>, and the division by its length is a branch of
  its own.
\<close>

definition forecast_based :: "real \<Rightarrow> forecast_summary \<Rightarrow> suggestions \<Rightarrow> py_error + suggestions" where
  "forecast_based temp forecast_summary s =
     (case forecast_summary of
        EmptyDict \<Rightarrow> Inr s
      | SummaryList days \<Rightarrow>
          if days = [] then Inr s
          else
            let upcoming_rain = sum_list (map total_rain (take 3 days));
                s1 =
                  (if upcoming_rain > 10 then
                     s\<lparr>weekly_planning := weekly_planning s @
                         [''Heavy rain expected - prepare drainage and postpone outdoor activities''],
                       irrigation := irrigation s @
                         [''Reduce watering schedule due to expected rainfall'']\<rparr>
                   else if upcoming_rain < 1 then
                     s\<lparr>irrigation := irrigation s @
                         [''No rain expected - maintain regular watering schedule'']\<rparr>
                   else s)
            in if length (take 3 days) = 0 then Inl ZeroDivisionError
               else
                 let avg_temp = sum_list (map max_temp (take 3 days)) / real (length (take 3 days))
                 in Inr
                     (if avg_temp > temp + 5 then
                        s1\<lparr>weekly_planning := weekly_planning s1 @
                            [''Temperature rising - prepare for increased water needs'']\<rparr>
                      else if avg_temp < temp - 5 then
                        s1\<lparr>weekly_planning := weekly_planning s1 @
                            [''Temperature dropping - protect sensitive crops'']\<rparr>
                      else s1))"

definition seasonal :: "int \<Rightarrow> suggestions \<Rightarrow> suggestions" where
  "seasonal current_month s =
     (if current_month \<in> set [12, 1, 2] then
        s\<lparr>crop_care := crop_care s @
            [''Winter season - focus on cold-hardy crops and protection'']\<rparr>
      else if current_month \<in> set [3, 4, 5] then
        s\<lparr>weekly_planning := weekly_planning s @
            [''Spring season - ideal time for planting and soil preparation'']\<rparr>
      else if current_month \<in> set [6, 7, 8] then
        s\<lparr>irrigation := irrigation s @
            [''Summer season - maintain consistent watering and mulching'']\<rparr>
      else if current_month \<in> set [9, 10, 11] then
        s\<lparr>weekly_planning := weekly_planning s @
            [''Fall season - harvest time and winter preparation'']\<rparr>
      else s)"

text \<open>
  The clock read \<^verbatim>\<open>datetime.now()\<close> is the parameter \<open>now\<close>; the function uses its
  month only.
\<close>

definition generate_agricultural_suggestions ::
    "current_weather \<Rightarrow> forecast_item list \<Rightarrow> py_datetime \<Rightarrow> py_error + suggestions" where
  "generate_agricultural_suggestions current_weather forecast now =
     (let s0 = \<lparr>immediate_actions = [], weekly_planning = [], crop_care = [],
                irrigation = [], pest_disease_alerts = []\<rparr>;
          temp = temperature current_weather;
          hum = humidity current_weather;
          descr = lower (description current_weather);
          s1 = temperature_based temp s0;
          s2 = humidity_based hum s1;
          s3 = condition_based descr s2;
          s4 = wind_based (wind_speed current_weather) s3
      in py_bind (get_forecast_summary forecast) (\<lambda>forecast_summary.
         py_bind (forecast_based temp forecast_summary s4) (\<lambda>s5.
           Inr (seasonal (month now) s5))))"

subsection \<open>The orchestrator: the fetches and \<^verbatim>\<open>get_agricultural_suggestions\<close>\<close>

text \<open>
  What the service cannot decide is its environment: what the provider answers on each
  endpoint (\<open>Inl\<close> is the text of the \<^verbatim>\<open>RequestException\<close> that \<^verbatim>\<open>requests.get\<close>,
  \<^verbatim>\<open>raise_for_status\<close> or \<^verbatim>\<open>response.json\<close> raised), the zone of the machine and
  its clock. What the service does to the outside is recorded in the world: the URLs it
  requested and the lines it logged, oldest first.
\<close>

record environment =
  weather_response :: "string + raw_observation"
  forecast_response :: "string + raw_forecast"
  local_utcoffset :: "int \<Rightarrow> int"
  clock :: py_datetime

record world =
  requests_sent :: "string list"
  error_log :: "string list"

record weather_service =
  api_key :: string
  base_url :: string

text \<open>A result dictionary: \<^verbatim>\<open>{'success': True, ...}\<close> or \<^verbatim>\<open>{'success': False, 'error': ...}\<close>.\<close>

datatype 'a api_result = Success 'a | Failure string

text \<open>\<^verbatim>\<open>str(e)\<close>\<close>

definition str_of_error :: "py_error \<Rightarrow> string" where
  "str_of_error e =
     (case e of
        KeyError k \<Rightarrow> [CHR 0x27] @ k @ [CHR 0x27]
      | IndexError \<Rightarrow> ''list index out of range''
      | ValueError m \<Rightarrow> m
      | ZeroDivisionError \<Rightarrow> ''division by zero'')"

definition get_current_weather ::
    "weather_service \<Rightarrow> environment \<Rightarrow> real \<Rightarrow> real \<Rightarrow> world
      \<Rightarrow> current_weather api_result \<times> world" where
  "get_current_weather svc env lat lon w =
     (let url = base_url svc @ ''/weather'';
          w1 = w\<lparr>requests_sent := requests_sent w @ [url]\<rparr>
      in case weather_response env of
           Inl e \<Rightarrow>
             (Failure (''Failed to fetch weather data: '' @ e),
              w1\<lparr>error_log := error_log w1 @ [''Weather API request error: '' @ e]\<rparr>)
         | Inr data \<Rightarrow>
             (case format_current_weather (local_utcoffset env) data of
                Inl e \<Rightarrow>
                  (Failure (''Weather data processing error: '' @ str_of_error e),
                   w1\<lparr>error_log := error_log w1 @
                       [''Weather processing error: '' @ str_of_error e]\<rparr>)
              | Inr current \<Rightarrow> (Success current, w1)))"

definition get_weather_forecast ::
    "weather_service \<Rightarrow> environment \<Rightarrow> real \<Rightarrow> real \<Rightarrow> world
      \<Rightarrow> forecast_item list api_result \<times> world" where
  "get_weather_forecast svc env lat lon w =
     (let url = base_url svc @ ''/forecast'';
          w1 = w\<lparr>requests_sent := requests_sent w @ [url]\<rparr>
      in case forecast_response env of
           Inl e \<Rightarrow>
             (Failure (''Failed to fetch forecast data: '' @ e),
              w1\<lparr>error_log := error_log w1 @ [''Forecast API request error: '' @ e]\<rparr>)
         | Inr data \<Rightarrow>
             (case format_forecast_data (local_utcoffset env) data of
                Inl e \<Rightarrow>
                  (Failure (''Forecast data processing error: '' @ str_of_error e),
                   w1\<lparr>error_log := error_log w1 @
                       [''Forecast processing error: '' @ str_of_error e]\<rparr>)
              | Inr forecast \<Rightarrow> (Success forecast, w1)))"

record location =
  latitude :: real
  longitude :: real
  city :: string

record advisory_payload =
  current_weather :: current_weather
  forecast_summary :: forecast_summary
  agricultural_suggestions :: suggestions
  location :: location

definition get_agricultural_suggestions ::
    "weather_service \<Rightarrow> environment \<Rightarrow> real \<Rightarrow> real \<Rightarrow> world
      \<Rightarrow> advisory_payload api_result \<times> world" where
  "get_agricultural_suggestions svc env lat lon w =
     (let (current_result, w1) = get_current_weather svc env lat lon w;
          (forecast_result, w2) = get_weather_forecast svc env lat lon w1
      in case (current_result, forecast_result) of
           (Success current, Success forecast) \<Rightarrow>
             (case py_bind (generate_agricultural_suggestions current forecast (clock env))
                     (\<lambda>sugg.
                   py_bind (get_forecast_summary forecast) (\<lambda>summary.
                     Inr \<lparr>current_weather = current, forecast_summary = summary,
                          agricultural_suggestions = sugg,
                          location = \<lparr>latitude = lat, longitude = lon,
                                      city = city_name current\<rparr>\<rparr>)) of
                Inl e \<Rightarrow>
                  (Failure (''Failed to generate agricultural suggestions: '' @ str_of_error e),
                   w2\<lparr>error_log := error_log w2 @
                       [''Agricultural suggestions error: '' @ str_of_error e]\<rparr>)
              | Inr payload \<Rightarrow> (Success payload, w2))
         | _ \<Rightarrow> (Failure ''Failed to fetch weather data for suggestions'', w2))"

section \<open>Notions used to state the properties\<close>

subsection \<open>Grouping by date\<close>

text \<open>
  The distinct elements of a list in the order of their first occurrence, the samples of
  one date, and what the first loop has stored for a group of samples of one date.
\<close>

definition first_seen :: "'a list \<Rightarrow> 'a list" where
  "first_seen xs = rev (remdups (rev xs))"

definition samples_of_date :: "string \<Rightarrow> forecast_item list \<Rightarrow> forecast_item list" where
  "samples_of_date d forecast = filter (\<lambda>item. date_key item = d) forecast"

definition running_of :: "forecast_item list \<Rightarrow> running_summary" where
  "running_of items =
     foldl (\<lambda>summary item. add_item item summary) (new_summary (hd items)) items"

definition running_table :: "forecast_item list \<Rightarrow> (string \<times> running_summary) list" where
  "running_table xs =
     map (\<lambda>d. (d, running_of (samples_of_date d xs))) (first_seen (map date_key xs))"

definition count_table :: "string list \<Rightarrow> (string \<times> nat) list" where
  "count_table cs = map (\<lambda>c. (c, count_list cs c)) (first_seen cs)"

text \<open>A daily summary \<open>s\<close> is the summary of the non-empty group \<open>grp\<close>.\<close>

definition summarises :: "forecast_item list \<Rightarrow> daily_summary \<Rightarrow> bool" where
  "summarises grp s \<longleftrightarrow>
     grp \<noteq> [] \<and> date s = date_key (hd grp) \<and>
     min_temp s = Min (temperature ` set grp) \<and> max_temp s = Max (temperature ` set grp) \<and>
     total_rain s = sum_list (map rain grp) \<and>
     avg_humidity s = sum_list (map humidity grp) / real (length grp) \<and>
     most_common (map main grp) = Inr (main_condition s)"

subsection \<open>The tie-break as the specification words it\<close>

text \<open>
  "The condition that first reaches the maximum count in chronological iteration
  order": scanning the conditions in order with running counts, the first condition whose
  running count equals the largest final count.
\<close>

fun first_to_reach :: "nat \<Rightarrow> string list \<Rightarrow> string list \<Rightarrow> string option" where
  "first_to_reach m seen [] = None"
| "first_to_reach m seen (c # rest) =
     (if count_list (seen @ [c]) c = m then Some c else first_to_reach m (seen @ [c]) rest)"

definition first_to_reach_max :: "string list \<Rightarrow> string option" where
  "first_to_reach_max cs = first_to_reach (fold max (map (count_list cs) cs) 0) [] cs"

subsection \<open>Which keys a payload has\<close>







subsection \<open>Example inputs\<close>

text \<open>A formatted forecast sample: time, temperature, humidity, rain and condition.\<close>

definition sample :: "string \<Rightarrow> real \<Rightarrow> real \<Rightarrow> real \<Rightarrow> string \<Rightarrow> forecast_item" where
  "sample dt t h r c =
     \<lparr>temperature = t, feels_like = t, humidity = h, pressure = 1013,
      description = c, main = c, icon = ''04d'', wind_speed = 3, wind_direction = 0,
      datetime = dt, precipitation_probability = 0, rain = r, snow = 0\<rparr>"

text \<open>A formatted current sample: temperature, humidity, description and wind speed.\<close>

definition current_sample :: "real \<Rightarrow> real \<Rightarrow> string \<Rightarrow> real \<Rightarrow> current_weather" where
  "current_sample t h d w =
     \<lparr>temperature = t, feels_like = t, humidity = h, pressure = 1013,
      description = d, main = d, icon = ''04d'', wind_speed = w, wind_direction = 0,
      visibility = 10, uv_index = 0, city_name = ''Mumbai'', country = ''IN'',
      sunrise = ''2024-01-01T07:12:00'', sunset = ''2024-01-01T18:11:00'',
      timestamp = ''2024-01-01T12:00:00''\<rparr>"

text \<open>
  A forecast entry of the provider with every key the code subscripts and none of the
  defaulted ones; the same with all of them; and an observation with the three required
  fields and nothing else.
\<close>

definition raw_entry :: "int \<Rightarrow> real \<Rightarrow> real \<Rightarrow> string \<Rightarrow> raw_observation" where
  "raw_entry ts t h c =
     \<lparr>o_dt = Some ts,
      o_main = Some \<lparr>r_temp = Some t, r_feels_like = Some t, r_humidity = Some h,
                     r_pressure = Some 1013\<rparr>,
      o_weather = Some [\<lparr>r_description = Some c, r_main = Some c, r_icon = Some ''04d''\<rparr>],
      o_wind = Some \<lparr>r_speed = Some 3, r_deg = None\<rparr>,
      o_visibility = None, o_uvi = None, o_name = None, o_sys = None,
      o_pop = None, o_rain = None, o_snow = None\<rparr>"



text \<open>
  A service, an environment whose weather endpoint times out while the forecast endpoint
  answers, and a world in which nothing has happened yet.
\<close>

definition example_service :: weather_service where
  "example_service = \<lparr>api_key = ''k'', base_url = ''https://api.openweathermap.org/data/2.5''\<rparr>"

definition timeout_environment :: environment where
  "timeout_environment =
     \<lparr>weather_response = Inl ''Read timed out'',
      forecast_response = Inr \<lparr>o_list = Some [raw_entry 1704132000 20 50 ''Clouds'']\<rparr>,
      local_utcoffset = fixed_offset 0,
      clock = \<lparr>year = 2024, month = 1, day = 1, hour = 18, minute = 0, second = 0\<rparr>\<rparr>"

definition fresh_world :: world where
  "fresh_world = \<lparr>requests_sent = [], error_log = []\<rparr>"

text \<open>
  Forecasts: three samples of one date; three samples over two dates; and three provider
  entries of one UTC date with what the normalizer makes of them in a zone five and a
  half hours east of UTC.
\<close>

definition one_day_forecast :: "forecast_item list" where
  "one_day_forecast =
     [sample ''2024-01-01T00:00:00'' 10 50 0 ''Cloudy'',
      sample ''2024-01-01T03:00:00'' 11 60 1 ''Rain'',
      sample ''2024-01-01T06:00:00'' 12 70 2 ''Cloudy'']"

definition two_day_forecast :: "forecast_item list" where
  "two_day_forecast =
     [sample ''2024-01-01T18:00:00'' 10 50 0 ''Clouds'',
      sample ''2024-01-01T21:00:00'' 8 70 2.5 ''Rain'',
      sample ''2024-01-02T00:00:00'' 7 90 4 ''Rain'']"



text \<open>
  Current samples at and around the thresholds of the rule engine, two clock readings of
  one calendar date, and forecasts whose first three days bring 12 mm and 0.5 mm of rain
  (the second with 50 mm on its fourth day).
\<close>

definition frosty_current :: current_weather where
  "frosty_current = current_sample 3 80 ''Light Rain'' 10"

definition boundary_current :: current_weather where
  "boundary_current = current_sample 5 30 ''Clear Sky'' 3"

definition hot_boundary_current :: current_weather where
  "hot_boundary_current = current_sample 35 80 ''Clear Sky'' 3"

definition noon_new_year :: py_datetime where
  "noon_new_year = \<lparr>year = 2024, month = 1, day = 1, hour = 12, minute = 0, second = 0\<rparr>"

definition evening_new_year :: py_datetime where
  "evening_new_year = \<lparr>year = 2024, month = 1, day = 1, hour = 21, minute = 30, second = 5\<rparr>"

definition wet_forecast :: "forecast_item list" where
  "wet_forecast =
     [sample ''2024-01-01T12:00:00'' 10 50 5 ''Rain'',
      sample ''2024-01-02T12:00:00'' 10 50 4 ''Rain'',
      sample ''2024-01-03T12:00:00'' 10 50 3 ''Rain'']"



section \<open>Properties of the aggregator\<close>

subsection \<open>The first loop stores one running summary per date\<close>

text \<open>Sequencing of computations that can raise, and the order of first occurrence.\<close>

lemma py_bind_simps [simp]:
  "py_bind (Inl e) f = Inl e" "py_bind (Inr x) f = f x"
  by (simp_all add: py_bind_def)


lemma first_seen_Nil [simp]: "first_seen [] = []"
  by (simp add: first_seen_def)

lemma first_seen_snoc:
  "first_seen (xs @ [x]) = (if x \<in> set xs then first_seen xs else first_seen xs @ [x])"
  by (simp add: first_seen_def)

lemma set_first_seen [simp]: "set (first_seen xs) = set xs"
  by (simp add: first_seen_def)

lemma distinct_first_seen [simp]: "distinct (first_seen xs)"
  by (simp add: first_seen_def)

lemma first_seen_append:
  "first_seen (xs @ ys) = first_seen xs @ filter (\<lambda>y. y \<notin> set xs) (first_seen ys)"
proof (induction ys rule: rev_induct)
  case Nil
  show ?case by simp
next
  case (snoc y ys)
  have "first_seen (xs @ ys @ [y]) = first_seen ((xs @ ys) @ [y])" by simp
  also have "\<dots> = (if y \<in> set (xs @ ys) then first_seen (xs @ ys) else first_seen (xs @ ys) @ [y])"
    by (rule first_seen_snoc)
  finally show ?case using snoc by (auto simp: first_seen_snoc)
qed

text \<open>
  Assignment into a dictionary whose keys are \<open>ks\<close>, in this order, and whose value at
  \<open>d\<close> is \<open>f d\<close>.
\<close>

lemma update_map_present:
  "distinct ks \<Longrightarrow> k \<in> set ks \<Longrightarrow>
   AList.update k v (map (\<lambda>d. (d, f d)) ks) = map (\<lambda>d. (d, if d = k then v else f d)) ks"
  by (induction ks) auto

lemma update_map_absent:
  "k \<notin> set ks \<Longrightarrow> AList.update k v (map (\<lambda>d. (d, f d)) ks) = map (\<lambda>d. (d, f d)) ks @ [(k, v)]"
  by (induction ks) auto

lemma map_of_map_key:
  "map_of (map (\<lambda>d. (d, f d)) ks) k = (if k \<in> set ks then Some (f k) else None)"
  by (induction ks) auto

text \<open>
  The invariant of the first loop: after the samples \<open>xs\<close> the dictionary is
  \<open>running_table xs\<close>, one entry per date in the order of first occurrence, holding
  what \<open>add_item\<close> accumulates over the samples of that date.
\<close>

lemma samples_of_date_snoc:
  "samples_of_date d (xs @ [y]) = samples_of_date d xs @ (if date_key y = d then [y] else [])"
  by (simp add: samples_of_date_def)

lemma samples_of_date_nonempty:
  "samples_of_date d xs \<noteq> [] \<longleftrightarrow> d \<in> date_key ` set xs"
  by (auto simp: samples_of_date_def filter_empty_conv)

lemma running_of_snoc:
  "grp \<noteq> [] \<Longrightarrow> running_of (grp @ [y]) = add_item y (running_of grp)"
  by (simp add: running_of_def)

lemma running_of_single: "running_of [y] = add_item y (new_summary y)"
  by (simp add: running_of_def)

lemma accumulate_item_table:
  "accumulate_item y (running_table xs) = Inr (running_table (xs @ [y]))"
proof (cases "date_key y \<in> date_key ` set xs")
  case True
  then have ne: "samples_of_date (date_key y) xs \<noteq> []"
    by (simp add: samples_of_date_nonempty)
  have keys: "first_seen (map date_key (xs @ [y])) = first_seen (map date_key xs)"
    using True by (simp add: first_seen_snoc)
  have look: "map_of (running_table xs) (date_key y) = Some (running_of (samples_of_date (date_key y) xs))"
    using True by (simp add: running_table_def map_of_map_key)
  have "accumulate_item y (running_table xs) =
        Inr (AList.update (date_key y) (add_item y (running_of (samples_of_date (date_key y) xs)))
               (running_table xs))"
    by (simp add: accumulate_item_def look Let_def)
  also have "AList.update (date_key y) (add_item y (running_of (samples_of_date (date_key y) xs)))
               (running_table xs) = running_table (xs @ [y])"
    unfolding running_table_def keys
    using True ne
    by (subst update_map_present) (auto simp: samples_of_date_snoc running_of_snoc)
  finally show ?thesis .
next
  case False
  have keys: "first_seen (map date_key (xs @ [y])) = first_seen (map date_key xs) @ [date_key y]"
    using False by (simp add: first_seen_snoc)
  have look: "map_of (running_table xs) (date_key y) = None"
    using False by (simp add: running_table_def map_of_map_key)
  have emp: "samples_of_date (date_key y) xs = []"
    using False samples_of_date_nonempty by blast
  have upd: "AList.update (date_key y) v (running_table xs) = running_table xs @ [(date_key y, v)]" for v
    unfolding running_table_def using False by (subst update_map_absent) auto
  have "accumulate_item y (running_table xs) =
        Inr (running_table xs @ [(date_key y, add_item y (new_summary y))])"
    by (simp add: accumulate_item_def look Let_def AList.update_conv') (simp add: upd)
  also have "running_table xs @ [(date_key y, add_item y (new_summary y))] = running_table (xs @ [y])"
    unfolding running_table_def keys
    using False by (auto simp: samples_of_date_snoc emp running_of_single)
  finally show ?thesis .
qed

lemma accumulate_table_gen:
  "accumulate ys (running_table xs) = Inr (running_table (xs @ ys))"
proof (induction ys arbitrary: xs)
  case Nil
  show ?case by simp
next
  case (Cons y ys)
  have "accumulate (y # ys) (running_table xs) = accumulate ys (running_table (xs @ [y]))"
    by (simp add: accumulate_item_table)
  then show ?case using Cons [of "xs @ [y]"] by simp
qed

lemma accumulate_table: "accumulate forecast [] = Inr (running_table forecast)"
  using accumulate_table_gen [of forecast "[]"] by (simp add: running_table_def)

subsection \<open>What a running summary holds\<close>

lemma foldl_add_item_fields:
  "conditions (foldl (\<lambda>s i. add_item i s) s0 grp) = conditions s0 @ map main grp"
  "count (foldl (\<lambda>s i. add_item i s) s0 grp) = count s0 + length grp"
  "total_rain (foldl (\<lambda>s i. add_item i s) s0 grp) = total_rain s0 + sum_list (map rain grp)"
  "avg_humidity (foldl (\<lambda>s i. add_item i s) s0 grp) = avg_humidity s0 + sum_list (map humidity grp)"
  "date (foldl (\<lambda>s i. add_item i s) s0 grp) = date s0"
  by (induction grp arbitrary: s0) (simp_all add: add_item_def)

lemma foldl_add_item_min_max:
  "min_temp s0 \<le> max_temp s0 \<Longrightarrow>
   min_temp (foldl (\<lambda>s i. add_item i s) s0 grp) \<le> max_temp (foldl (\<lambda>s i. add_item i s) s0 grp)"
  by (induction grp arbitrary: s0) (simp_all add: add_item_def min_le_iff_disj le_max_iff_disj)

lemma foldl_add_item_min:
  "min_temp (foldl (\<lambda>s i. add_item i s) s0 grp) = Min (set (min_temp s0 # map temperature grp))"
proof -
  have "min_temp (foldl (\<lambda>s i. add_item i s) s0 grp) = fold min (map temperature grp) (min_temp s0)"
    by (induction grp arbitrary: s0) (simp_all add: add_item_def min.commute)
  then show ?thesis by (simp only: Min.set_eq_fold)
qed

lemma foldl_add_item_max:
  "max_temp (foldl (\<lambda>s i. add_item i s) s0 grp) = Max (set (max_temp s0 # map temperature grp))"
proof -
  have "max_temp (foldl (\<lambda>s i. add_item i s) s0 grp) = fold max (map temperature grp) (max_temp s0)"
    by (induction grp arbitrary: s0) (simp_all add: add_item_def max.commute)
  then show ?thesis by (simp only: Max.set_eq_fold)
qed

lemma running_of_fields:
  assumes "grp \<noteq> []"
  shows "conditions (running_of grp) = map main grp"
    and "count (running_of grp) = length grp"
    and "total_rain (running_of grp) = sum_list (map rain grp)"
    and "avg_humidity (running_of grp) = sum_list (map humidity grp)"
    and "date (running_of grp) = date_key (hd grp)"
    and "min_temp (running_of grp) = Min (temperature ` set grp)"
    and "max_temp (running_of grp) = Max (temperature ` set grp)"
proof -
  obtain i rest where grp: "grp = i # rest" using assms by (cases grp) auto
  have ins: "insert (temperature i) (insert (temperature i) (temperature ` set rest)) =
             insert (temperature i) (temperature ` set rest)" by auto
  show "conditions (running_of grp) = map main grp"
    by (simp add: running_of_def foldl_add_item_fields new_summary_def)
  show "count (running_of grp) = length grp"
    by (simp add: running_of_def foldl_add_item_fields new_summary_def)
  show "total_rain (running_of grp) = sum_list (map rain grp)"
    by (simp add: running_of_def foldl_add_item_fields new_summary_def)
  show "avg_humidity (running_of grp) = sum_list (map humidity grp)"
    by (simp add: running_of_def foldl_add_item_fields new_summary_def)
  show "date (running_of grp) = date_key (hd grp)"
    by (simp add: running_of_def foldl_add_item_fields new_summary_def)
  show "min_temp (running_of grp) = Min (temperature ` set grp)"
    unfolding running_of_def foldl_add_item_min by (simp add: grp new_summary_def ins)
  show "max_temp (running_of grp) = Max (temperature ` set grp)"
    unfolding running_of_def foldl_add_item_max by (simp add: grp new_summary_def ins)
qed

subsection \<open>Counting the conditions and taking the first maximum\<close>

text \<open>
  After the conditions \<open>cs\<close> the dictionary \<^verbatim>\<open>condition_counts\<close> is \<open>count_table cs\<close>:
  the distinct conditions in the order of first occurrence, each with its number of
  occurrences.
\<close>

lemma count_list_snoc: "count_list (xs @ [x]) y = count_list xs y + (if x = y then 1 else 0)"
  by (induction xs) auto

lemma count_conditions_step:
  "AList.update c (Suc (case map_of (count_table xs) c of None \<Rightarrow> 0 | Some n \<Rightarrow> n)) (count_table xs)
     = count_table (xs @ [c])"
proof (cases "c \<in> set xs")
  case True
  then show ?thesis
    unfolding count_table_def
    by (subst update_map_present) (auto simp: map_of_map_key first_seen_snoc count_list_snoc)
next
  case False
  then show ?thesis
    unfolding count_table_def
    by (subst update_map_absent) (auto simp: map_of_map_key first_seen_snoc count_list_snoc)
qed

lemma count_conditions_gen: "count_conditions ys (count_table xs) = count_table (xs @ ys)"
proof (induction ys arbitrary: xs)
  case Nil
  show ?case by simp
next
  case (Cons y ys)
  show ?case using Cons [of "xs @ [y]"] by (simp add: count_conditions_step)
qed

lemma count_conditions_table: "count_conditions cs [] = count_table cs"
  using count_conditions_gen [of cs "[]"] by (simp add: count_table_def)

text \<open>
  The running maximum of \<^verbatim>\<open>max\<close> ends at an item before which every key is strictly
  smaller and after which no key is greater.
\<close>

lemma foldl_best:
  "foldl (\<lambda>best y. if (key best :: 'k::linorder) < key y then y else best) x rest = b \<Longrightarrow>
   \<exists>pre post. x # rest = pre @ b # post
      \<and> (\<forall>y \<in> set pre. key y < key b) \<and> (\<forall>y \<in> set post. key y \<le> key b)"
proof (induction rest arbitrary: b rule: rev_induct)
  case Nil
  then have "x # [] = [] @ b # []" by simp
  then show ?case by fastforce
next
  case (snoc z rest)
  define b0 where "b0 = foldl (\<lambda>best y. if key best < key y then y else best) x rest"
  from snoc.IH [of b0] obtain pre post where
    split: "x # rest = pre @ b0 # post" and
    pre: "\<forall>y \<in> set pre. key y < key b0" and
    post: "\<forall>y \<in> set post. key y \<le> key b0"
    unfolding b0_def by blast
  have b: "b = (if key b0 < key z then z else b0)"
    using snoc.prems by (auto simp: b0_def)
  show ?case
  proof (cases "key b0 < key z")
    case True
    have all: "\<forall>y \<in> set (x # rest). key y < key z"
    proof
      fix y assume "y \<in> set (x # rest)"
      then have "y \<in> set pre \<or> y = b0 \<or> y \<in> set post" unfolding split by auto
      then show "key y < key z"
      proof (elim disjE)
        assume "y \<in> set pre"
        then have "key y < key b0" using pre by simp
        then show ?thesis using True by (rule less_trans)
      next
        assume "y = b0"
        then show ?thesis using True by simp
      next
        assume "y \<in> set post"
        then have "key y \<le> key b0" using post by simp
        then show ?thesis using True by (rule le_less_trans)
      qed
    qed
    have bz: "b = z" using True b by simp
    have "x # rest @ [z] = (x # rest) @ b # [] \<and> (\<forall>y \<in> set (x # rest). key y < key b)
            \<and> (\<forall>y \<in> set []. key y \<le> key b)"
      using all bz by simp
    then show ?thesis by blast
  next
    case False
    have "x # rest @ [z] = pre @ b # (post @ [z])" using False b split by simp
    moreover have "\<forall>y \<in> set (post @ [z]). key y \<le> key b" using False b post by auto
    moreover have "\<forall>y \<in> set pre. key y < key b" using False b pre by simp
    ultimately show ?thesis by blast
  qed
qed

lemma map_fst_count_table [simp]: "map fst (count_table cs) = first_seen cs"
  by (simp add: count_table_def comp_def)

lemma map_of_count_table:
  "map_of (count_table cs) c = (if c \<in> set cs then Some (count_list cs c) else None)"
  by (simp add: count_table_def map_of_map_key)

lemma first_seen_eq_Nil [simp]: "first_seen xs = [] \<longleftrightarrow> xs = []"
  by (metis set_first_seen set_empty)

lemma most_common_first_seen:
  assumes "cs \<noteq> []"
  shows "\<exists>c pre post. most_common cs = Inr c \<and> first_seen cs = pre @ c # post
           \<and> (\<forall>d \<in> set pre. count_list cs d < count_list cs c)
           \<and> (\<forall>d \<in> set post. count_list cs d \<le> count_list cs c)"
proof -
  obtain x rest where xr: "first_seen cs = x # rest"
    using assms by (cases "first_seen cs") auto
  define c where "c = foldl (\<lambda>best y. if map_of (count_table cs) best < map_of (count_table cs) y
                                      then y else best) x rest"
  have mc: "most_common cs = Inr c"
    by (simp add: most_common_def count_conditions_table py_max_def xr c_def Let_def)
  from foldl_best [OF c_def [symmetric]] obtain pre post where
    split: "x # rest = pre @ c # post" and
    pre: "\<forall>y \<in> set pre. map_of (count_table cs) y < map_of (count_table cs) c" and
    post: "\<forall>y \<in> set post. map_of (count_table cs) y \<le> map_of (count_table cs) c"
    by blast
  have mem: "set pre \<subseteq> set cs" "c \<in> set cs" "set post \<subseteq> set cs"
    using split xr set_first_seen [of cs] by auto
  have "\<forall>d \<in> set pre. count_list cs d < count_list cs c"
  proof
    fix d assume d: "d \<in> set pre"
    then have "map_of (count_table cs) d < map_of (count_table cs) c" using pre by simp
    moreover have "d \<in> set cs" using d mem by auto
    ultimately show "count_list cs d < count_list cs c"
      using mem by (simp add: map_of_count_table)
  qed
  moreover have "\<forall>d \<in> set post. count_list cs d \<le> count_list cs c"
  proof
    fix d assume d: "d \<in> set post"
    then have "map_of (count_table cs) d \<le> map_of (count_table cs) c" using post by simp
    moreover have "d \<in> set cs" using d mem by auto
    ultimately show "count_list cs d \<le> count_list cs c"
      using mem by (simp add: map_of_count_table)
  qed
  ultimately show ?thesis using mc split xr by auto
qed

lemma most_common_Nil: "most_common [] = Inl (ValueError ''max() arg is an empty sequence'')"
  by (simp add: most_common_def py_max_def)

lemma most_common_mode:
  assumes "most_common cs = Inr c"
  shows "c \<in> set cs" and "count_list cs d \<le> count_list cs c"
proof -
  have ne: "cs \<noteq> []" using assms by (auto simp: most_common_Nil)
  from most_common_first_seen [OF ne] assms obtain pre post where
    split: "first_seen cs = pre @ c # post" and
    pre: "\<forall>d \<in> set pre. count_list cs d < count_list cs c" and
    post: "\<forall>d \<in> set post. count_list cs d \<le> count_list cs c"
    by auto
  have sets: "set cs = set pre \<union> {c} \<union> set post"
    using set_first_seen [of cs] unfolding split by auto
  show "c \<in> set cs" using sets by simp
  show "count_list cs d \<le> count_list cs c"
  proof (cases "d \<in> set cs")
    case True
    then show ?thesis using sets pre post by (auto simp: less_imp_le)
  next
    case False
    then show ?thesis by (simp add: count_list_0_iff)
  qed
qed

lemma first_seen_first_occurrence:
  assumes "first_seen cs = pre @ c # post" and "cs = ys @ c # zs" and "c \<notin> set ys"
  shows "set ys = set pre"
proof -
  have "first_seen cs = first_seen ys @ filter (\<lambda>y. y \<notin> set ys) (first_seen ([c] @ zs))"
    using assms(2) first_seen_append [of ys "c # zs"] by simp
  also have "first_seen ([c] @ zs) = first_seen [c] @ filter (\<lambda>y. y \<notin> set [c]) (first_seen zs)"
    by (rule first_seen_append)
  finally have eq: "first_seen cs = first_seen ys @ c # filter (\<lambda>y. y \<notin> set ys) (filter (\<lambda>y. y \<notin> set [c]) (first_seen zs))"
    using assms(3) by (simp add: first_seen_def)
  have "distinct (pre @ c # post)" using distinct_first_seen [of cs] assms(1) by simp
  then have notin: "c \<notin> set pre" "c \<notin> set post" by simp_all
  have "pre @ c # post =
      first_seen ys @ c # filter (\<lambda>y. y \<notin> set ys) (filter (\<lambda>y. y \<notin> set [c]) (first_seen zs))"
    using eq assms(1) by simp
  then have "pre = first_seen ys"
    using append_Cons_eq_iff [OF notin] by blast
  then show ?thesis by simp
qed

lemma most_common_tie_break:
  assumes "most_common cs = Inr c"
  shows "\<exists>ys zs. cs = ys @ c # zs \<and> c \<notin> set ys \<and> (\<forall>d \<in> set ys. count_list cs d < count_list cs c)"
proof -
  have ne: "cs \<noteq> []" using assms by (auto simp: most_common_Nil)
  from most_common_first_seen [OF ne] assms obtain pre post where
    split: "first_seen cs = pre @ c # post" and
    pre: "\<forall>d \<in> set pre. count_list cs d < count_list cs c"
    by auto
  have "c \<in> set cs" using assms by (rule most_common_mode)
  then obtain ys zs where cs: "cs = ys @ c # zs" and c: "c \<notin> set ys"
    by (auto dest: split_list_first)
  have "set ys = set pre" using split cs c by (rule first_seen_first_occurrence)
  with pre cs c show ?thesis by blast
qed

subsection \<open>The finalizing loop and the result\<close>

lemma finalize_summary_running:
  assumes "grp \<noteq> []"
  shows "\<exists>s. finalize_summary (running_of grp) = Inr s \<and> summarises grp s"
proof -
  from most_common_first_seen [of "map main grp"] assms
  obtain c where c: "most_common (map main grp) = Inr c" by auto
  show ?thesis
    using assms c
    by (simp add: finalize_summary_def running_of_fields summarises_def)
qed

lemma finalize_table:
  assumes "\<forall>d \<in> set ks. samples_of_date d xs \<noteq> []"
  shows "\<exists>ss. finalize (map (\<lambda>d. (d, running_of (samples_of_date d xs))) ks) = Inr ss
            \<and> list_all2 (\<lambda>d s. summarises (samples_of_date d xs) s) ks ss"
  using assms
proof (induction ks)
  case Nil
  show ?case by simp
next
  case (Cons k ks)
  from Cons.prems have "samples_of_date k xs \<noteq> []" by simp
  from finalize_summary_running [OF this] obtain s where
    s: "finalize_summary (running_of (samples_of_date k xs)) = Inr s"
       "summarises (samples_of_date k xs) s" by blast
  from Cons obtain ss where
    ss: "finalize (map (\<lambda>d. (d, running_of (samples_of_date d xs))) ks) = Inr ss"
        "list_all2 (\<lambda>d s. summarises (samples_of_date d xs) s) ks ss" by auto
  show ?case using s ss by simp
qed

lemma hd_samples_of_date:
  "samples_of_date d xs \<noteq> [] \<Longrightarrow> date_key (hd (samples_of_date d xs)) = d"
  unfolding samples_of_date_def
  by (metis (mono_tags, lifting) hd_in_set mem_Collect_eq set_filter)

lemma get_forecast_summary_groups:
  assumes "forecast \<noteq> []"
  shows "\<exists>ss. get_forecast_summary forecast = Inr (SummaryList ss)
            \<and> map date ss = first_seen (map date_key forecast)
            \<and> (\<forall>s \<in> set ss. summarises (samples_of_date (date s) forecast) s)"
proof -
  let ?ks = "first_seen (map date_key forecast)"
  have ne: "\<forall>d \<in> set ?ks. samples_of_date d forecast \<noteq> []"
    by (simp add: samples_of_date_nonempty)
  from finalize_table [OF ne] obtain ss where
    fin: "finalize (running_table forecast) = Inr ss" and
    all2: "list_all2 (\<lambda>d s. summarises (samples_of_date d forecast) s) ?ks ss"
    unfolding running_table_def by blast
  have res: "get_forecast_summary forecast = Inr (SummaryList ss)"
    using assms by (simp add: get_forecast_summary_def accumulate_table fin)
  have dates: "list_all2 (\<lambda>d s. date s = d \<and> summarises (samples_of_date d forecast) s) ?ks ss"
    using all2
    by (rule list_all2_mono) (auto simp: summarises_def hd_samples_of_date)
  have "map date ss = ?ks"
    using dates by (induction rule: list_all2_induct) auto
  moreover have "\<forall>s \<in> set ss. summarises (samples_of_date (date s) forecast) s"
    using dates by (induction rule: list_all2_induct) auto
  ultimately show ?thesis using res by blast
qed

lemma get_forecast_summary_total: "\<exists>r. get_forecast_summary forecast = Inr r"
  using get_forecast_summary_groups [of forecast]
  by (cases "forecast = []") (auto simp: get_forecast_summary_def)

subsection \<open>Means, bounds and order\<close>





lemma summary_list_nonempty:
  assumes "get_forecast_summary forecast = Inr (SummaryList ss)"
  shows "forecast \<noteq> []"
  using assms by (auto simp: get_forecast_summary_def)

lemma summaries_of:
  assumes "get_forecast_summary forecast = Inr (SummaryList ss)"
  shows "map date ss = first_seen (map date_key forecast)"
    and "\<forall>s \<in> set ss. summarises (samples_of_date (date s) forecast) s"
  using get_forecast_summary_groups [OF summary_list_nonempty [OF assms]] assms by auto


subsection \<open>The date key of a formatted entry\<close>

lemma subscript_eq_Inr [simp]: "subscript k field = Inr v \<longleftrightarrow> field = Some v"
  by (cases field) (simp_all add: subscript_def)





subsection \<open>Samples of one date\<close>

lemma first_seen_constant:
  "xs \<noteq> [] \<Longrightarrow> \<forall>x \<in> set xs. x = d \<Longrightarrow> first_seen xs = [d]"
proof (induction xs rule: rev_induct)
  case Nil
  then show ?case by simp
next
  case (snoc x xs)
  have xd: "x = d" using snoc.prems(2) by simp
  have all: "\<forall>y \<in> set xs. y = d" using snoc.prems(2) by simp
  show ?case
  proof (cases "xs = []")
    case True
    show ?thesis unfolding True xd by (simp add: first_seen_def)
  next
    case False
    then obtain y ys where "xs = y # ys" by (cases xs) auto
    then have "d \<in> set xs" using all by auto
    moreover have "first_seen xs = [d]" using False all by (rule snoc.IH)
    ultimately show ?thesis unfolding xd by (simp add: first_seen_snoc)
  qed
qed

lemma same_date_single:
  assumes "forecast \<noteq> []" and "\<forall>item \<in> set forecast. date_key item = d"
  shows "first_seen (map date_key forecast) = [d]" and "samples_of_date d forecast = forecast"
proof -
  have "map date_key forecast \<noteq> []" using assms(1) by simp
  moreover have "\<forall>x \<in> set (map date_key forecast). x = d" using assms(2) by simp
  ultimately show "first_seen (map date_key forecast) = [d]" by (rule first_seen_constant)
  show "samples_of_date d forecast = forecast"
    using assms(2) by (simp add: samples_of_date_def)
qed

subsection \<open>Claims about the aggregator\<close>

text \<open>
  Claim C1, as the code has it. For a non-empty list of samples of one date the
  aggregator returns one summary, and its \<open>main_condition\<close> is a mode of the samples'
  conditions: no condition occurs more often, and every condition met before the first
  occurrence of the selected one occurs strictly less often. So among the conditions that
  tie for the largest count, the one encountered first is selected. Conditions Cloudy,
  Rain, Cloudy give Cloudy; Rain, Cloudy, Rain give Rain.
\<close>

theorem dominant_condition_first_seen:
  assumes "forecast \<noteq> []" and "\<forall>item \<in> set forecast. date_key item = d"
  shows "\<exists>s ys zs. get_forecast_summary forecast = Inr (SummaryList [s]) \<and>
           map main forecast = ys @ main_condition s # zs \<and>
           main_condition s \<notin> set ys \<and>
           (\<forall>c. count_list (map main forecast) c \<le> count_list (map main forecast) (main_condition s)) \<and>
           (\<forall>c \<in> set ys. count_list (map main forecast) c < count_list (map main forecast) (main_condition s)) \<and>
           (map main forecast = [''Cloudy'', ''Rain'', ''Cloudy''] \<longrightarrow> main_condition s = ''Cloudy'') \<and>
           (map main forecast = [''Rain'', ''Cloudy'', ''Rain''] \<longrightarrow> main_condition s = ''Rain'')"
proof -
  from get_forecast_summary_groups [OF assms(1)] obtain ss where
    res: "get_forecast_summary forecast = Inr (SummaryList ss)" and
    dates: "map date ss = first_seen (map date_key forecast)" and
    sums: "\<forall>s \<in> set ss. summarises (samples_of_date (date s) forecast) s"
    by blast
  from dates have "map date ss = [d]" using same_date_single(1) [OF assms] by simp
  then obtain s where ss: "ss = [s]" and ds: "date s = d" by auto
  have "summarises forecast s"
    using sums ss ds same_date_single(2) [OF assms] by simp
  then have mc: "most_common (map main forecast) = Inr (main_condition s)"
    by (simp add: summarises_def)
  from most_common_tie_break [OF mc] obtain ys zs where
    split: "map main forecast = ys @ main_condition s # zs" "main_condition s \<notin> set ys"
      "\<forall>c \<in> set ys. count_list (map main forecast) c < count_list (map main forecast) (main_condition s)"
    by blast
  have mode: "\<forall>c. count_list (map main forecast) c \<le> count_list (map main forecast) (main_condition s)"
    using most_common_mode(2) [OF mc] by simp
  have e1: "most_common [''Cloudy'', ''Rain'', ''Cloudy''] = Inr ''Cloudy''" by code_simp
  have e2: "most_common [''Rain'', ''Cloudy'', ''Rain''] = Inr ''Rain''" by code_simp
  have ex1: "main_condition s = ''Cloudy''" if "map main forecast = [''Cloudy'', ''Rain'', ''Cloudy'']"
    using mc e1 unfolding that by simp
  have ex2: "main_condition s = ''Rain''" if "map main forecast = [''Rain'', ''Cloudy'', ''Rain'']"
    using mc e2 unfolding that by simp
  have "get_forecast_summary forecast = Inr (SummaryList [s]) \<and>
           map main forecast = ys @ main_condition s # zs \<and>
           main_condition s \<notin> set ys \<and>
           (\<forall>c. count_list (map main forecast) c \<le> count_list (map main forecast) (main_condition s)) \<and>
           (\<forall>c \<in> set ys. count_list (map main forecast) c < count_list (map main forecast) (main_condition s)) \<and>
           (map main forecast = [''Cloudy'', ''Rain'', ''Cloudy''] \<longrightarrow> main_condition s = ''Cloudy'') \<and>
           (map main forecast = [''Rain'', ''Cloudy'', ''Rain''] \<longrightarrow> main_condition s = ''Rain'')"
    using res [unfolded ss] split mode ex1 ex2 by (intro conjI impI)
  then show ?thesis by (intro exI)
qed

text \<open>The theorem at three samples of one date with conditions Cloudy, Rain, Cloudy.\<close>

theorem dominant_condition_first_seen_witness:
  "one_day_forecast \<noteq> [] \<and>
   list_all (\<lambda>item. date_key item = ''2024-01-01'') one_day_forecast \<and>
   (\<exists>s. get_forecast_summary one_day_forecast = Inr (SummaryList [s]) \<and>
      main_condition s = ''Cloudy'')"
proof -
  have h1: "one_day_forecast \<noteq> []" by code_simp
  have h2: "list_all (\<lambda>item. date_key item = ''2024-01-01'') one_day_forecast" by code_simp
  then have h2': "\<forall>item \<in> set one_day_forecast. date_key item = ''2024-01-01''"
    by (simp only: list_all_iff)
  have m: "map main one_day_forecast = [''Cloudy'', ''Rain'', ''Cloudy'']" by code_simp
  from dominant_condition_first_seen [OF h1 h2'] m
  have "\<exists>s. get_forecast_summary one_day_forecast = Inr (SummaryList [s]) \<and>
          main_condition s = ''Cloudy''"
    by blast
  with h1 h2 show ?thesis by (intro conjI)
qed

text \<open>
  Claim C1 as worded ("the condition that first reaches the maximum count") fails on
  four samples of one date with conditions Cloudy, Rain, Rain, Cloudy: Rain is the first
  to reach the count 2, and the aggregator selects Cloudy, the first one encountered.
\<close>

theorem first_to_reach_max_counterexample:
  "get_forecast_summary
     [sample ''2024-01-01T00:00:00'' 10 50 0 ''Cloudy'', sample ''2024-01-01T03:00:00'' 11 60 1 ''Rain'',
      sample ''2024-01-01T06:00:00'' 12 70 2 ''Rain'', sample ''2024-01-01T09:00:00'' 13 60 1 ''Cloudy'']
     = Inr (SummaryList [\<lparr>date = ''2024-01-01'', min_temp = 10, max_temp = 13, total_rain = 4,
                          avg_humidity = 60, main_condition = ''Cloudy''\<rparr>]) \<and>
   first_to_reach_max [''Cloudy'', ''Rain'', ''Rain'', ''Cloudy''] = Some ''Rain''"
proof
  show "get_forecast_summary
     [sample ''2024-01-01T00:00:00'' 10 50 0 ''Cloudy'', sample ''2024-01-01T03:00:00'' 11 60 1 ''Rain'',
      sample ''2024-01-01T06:00:00'' 12 70 2 ''Rain'', sample ''2024-01-01T09:00:00'' 13 60 1 ''Cloudy'']
     = Inr (SummaryList [\<lparr>date = ''2024-01-01'', min_temp = 10, max_temp = 13, total_rain = 4,
                          avg_humidity = 60, main_condition = ''Cloudy''\<rparr>])"
    by code_simp
  show "first_to_reach_max [''Cloudy'', ''Rain'', ''Rain'', ''Cloudy''] = Some ''Rain''"
    by code_simp
qed

text \<open>
  Claim C2. On the empty forecast \<^verbatim>\<open>_get_forecast_summary\<close> returns the empty
  dictionary \<^verbatim>\<open>{}\<close>, which is not the empty list of daily summaries that the claim
  states and that the other return of the function would give.
\<close>

theorem empty_forecast_gives_empty_dict:
  "get_forecast_summary [] = Inr EmptyDict \<and> get_forecast_summary [] \<noteq> Inr (SummaryList [])"
  by (simp add: get_forecast_summary_def)






text \<open>
  Claim C10. The \<open>main_condition\<close> of a daily summary is the condition of at least one
  sample of the summary's date.
\<close>

theorem main_condition_occurs:
  assumes "get_forecast_summary forecast = Inr (SummaryList ss)" and "s \<in> set ss"
  shows "main_condition s \<in> main ` set (samples_of_date (date s) forecast)"
proof -
  have "summarises (samples_of_date (date s) forecast) s"
    using summaries_of(2) [OF assms(1)] assms(2) by simp
  then have "most_common (map main (samples_of_date (date s) forecast)) = Inr (main_condition s)"
    by (simp add: summarises_def)
  from most_common_mode(1) [OF this] show ?thesis by simp
qed

text \<open>The theorem at the second day of a forecast over two days.\<close>

theorem main_condition_occurs_witness:
  "\<exists>ss s. get_forecast_summary two_day_forecast = Inr (SummaryList ss) \<and> s \<in> set ss \<and>
     date s = ''2024-01-02'' \<and> main_condition s = ''Rain'' \<and>
     main_condition s \<in> main ` set (samples_of_date (date s) two_day_forecast)"
proof -
  define s1 :: daily_summary where
    "s1 = \<lparr>date = ''2024-01-01'', min_temp = 8, max_temp = 10, total_rain = 2.5,
           avg_humidity = 60, main_condition = ''Clouds''\<rparr>"
  define s2 :: daily_summary where
    "s2 = \<lparr>date = ''2024-01-02'', min_temp = 7, max_temp = 7, total_rain = 4,
           avg_humidity = 90, main_condition = ''Rain''\<rparr>"
  have r: "get_forecast_summary two_day_forecast = Inr (SummaryList [s1, s2])"
    unfolding s1_def s2_def by code_simp
  have mem: "s2 \<in> set [s1, s2]" by simp
  have d: "date s2 = ''2024-01-02''" "main_condition s2 = ''Rain''" by (simp_all add: s2_def)
  from main_condition_occurs [OF r mem] r mem d show ?thesis by (intro exI conjI)
qed

section \<open>Properties of the rule engine\<close>

subsection \<open>What each group appends\<close>

lemma temperature_based_fields:
  "immediate_actions (temperature_based t s) = immediate_actions s @
     (if t < 5 then [''Protect sensitive crops from frost damage'']
      else if t > 35 then [''Provide shade for sensitive crops during peak heat''] else [])"
  "crop_care (temperature_based t s) = crop_care s @
     (if t < 5 then [''Consider covering young plants or moving potted plants indoors''] else [])"
  "irrigation (temperature_based t s) = irrigation s @
     (if \<not> t < 5 \<and> t > 35 then [''Increase watering frequency due to high temperatures''] else [])"
  "weekly_planning (temperature_based t s) = weekly_planning s"
  "pest_disease_alerts (temperature_based t s) = pest_disease_alerts s"
  by (simp_all add: temperature_based_def)

lemma humidity_based_fields:
  "immediate_actions (humidity_based h s) = immediate_actions s"
  "crop_care (humidity_based h s) = crop_care s @
     (if h > 80 then [''Ensure good air circulation around plants''] else [])"
  "irrigation (humidity_based h s) = irrigation s @
     (if \<not> h > 80 \<and> h < 30 then [''Low humidity may increase water needs''] else [])"
  "weekly_planning (humidity_based h s) = weekly_planning s"
  "pest_disease_alerts (humidity_based h s) = pest_disease_alerts s @
     (if h > 80 then [''High humidity increases fungal disease risk - monitor crops closely'']
      else [])"
  by (simp_all add: humidity_based_def)

lemma condition_based_fields:
  "immediate_actions (condition_based d s) = immediate_actions s @
     (if sublist ''rain'' d then [''Postpone irrigation - natural rainfall occurring''] else [])"
  "crop_care (condition_based d s) = crop_care s @
     (if sublist ''rain'' d then [''Check for waterlogging in low-lying areas''] else [])"
  "irrigation (condition_based d s) = irrigation s @
     (if \<not> sublist ''rain'' d \<and> (sublist ''clear'' d \<or> sublist ''sunny'' d)
      then [''Good conditions for watering early morning or evening''] else [])"
  "weekly_planning (condition_based d s) = weekly_planning s @
     (if \<not> sublist ''rain'' d \<and> (sublist ''clear'' d \<or> sublist ''sunny'' d)
      then [''Ideal weather for field work and harvesting''] else [])"
  "pest_disease_alerts (condition_based d s) = pest_disease_alerts s"
  by (simp_all add: condition_based_def)

lemma wind_based_fields:
  "immediate_actions (wind_based w s) = immediate_actions s @
     (if w > 10 then [''Secure tall plants and check for wind damage''] else [])"
  "crop_care (wind_based w s) = crop_care s @
     (if w > 10 then [''Avoid spraying pesticides or fertilizers in windy conditions''] else [])"
  "irrigation (wind_based w s) = irrigation s"
  "weekly_planning (wind_based w s) = weekly_planning s"
  "pest_disease_alerts (wind_based w s) = pest_disease_alerts s"
  by (simp_all add: wind_based_def)

lemma seasonal_fields:
  "immediate_actions (seasonal m s) = immediate_actions s"
  "crop_care (seasonal m s) = crop_care s @
     (if m \<in> {12, 1, 2} then [''Winter season - focus on cold-hardy crops and protection'']
      else [])"
  "irrigation (seasonal m s) = irrigation s @
     (if m \<in> {6, 7, 8} then [''Summer season - maintain consistent watering and mulching'']
      else [])"
  "weekly_planning (seasonal m s) = weekly_planning s @
     (if m \<in> {3, 4, 5} then [''Spring season - ideal time for planting and soil preparation'']
      else if m \<in> {9, 10, 11} then [''Fall season - harvest time and winter preparation'']
      else [])"
  "pest_disease_alerts (seasonal m s) = pest_disease_alerts s"
  by (auto simp: seasonal_def)

lemma forecast_based_EmptyDict: "forecast_based temp EmptyDict s = Inr s"
  by (simp add: forecast_based_def)

lemma forecast_based_SummaryList:
  assumes "days \<noteq> []"
  shows "forecast_based temp (SummaryList days) s =
     Inr (s\<lparr>weekly_planning := weekly_planning s @
              (if sum_list (map total_rain (take 3 days)) > 10
               then [''Heavy rain expected - prepare drainage and postpone outdoor activities'']
               else []) @
              (if sum_list (map max_temp (take 3 days)) / real (length (take 3 days)) > temp + 5
               then [''Temperature rising - prepare for increased water needs'']
               else if sum_list (map max_temp (take 3 days)) / real (length (take 3 days)) < temp - 5
               then [''Temperature dropping - protect sensitive crops'']
               else []),
            irrigation := irrigation s @
              (if sum_list (map total_rain (take 3 days)) > 10
               then [''Reduce watering schedule due to expected rainfall'']
               else if sum_list (map total_rain (take 3 days)) < 1
               then [''No rain expected - maintain regular watering schedule'']
               else [])\<rparr>)"
  using assms by (simp add: forecast_based_def Let_def)

lemma forecast_based_total: "\<exists>s'. forecast_based temp fs s = Inr s'"
proof (cases fs)
  case EmptyDict
  then show ?thesis by (simp add: forecast_based_EmptyDict)
next
  case (SummaryList days)
  show ?thesis
  proof (cases "days = []")
    case True
    then show ?thesis using SummaryList by (simp add: forecast_based_def)
  next
    case False
    then show ?thesis using SummaryList by (simp add: forecast_based_SummaryList)
  qed
qed

subsection \<open>The five lists of the result\<close>

lemma summary_list_days_nonempty:
  assumes "get_forecast_summary forecast = Inr (SummaryList days)"
  shows "days \<noteq> []"
proof -
  have "forecast \<noteq> []" using assms by (rule summary_list_nonempty)
  then have "first_seen (map date_key forecast) \<noteq> []" by simp
  then have "map date days \<noteq> []" using summaries_of(1) [OF assms] by simp
  then show ?thesis by simp
qed

lemma generate_steps:
  obtains fs s5 where
    "get_forecast_summary forecast = Inr fs"
    "forecast_based (temperature cw) fs
       (wind_based (wind_speed cw)
         (condition_based (lower (description cw))
           (humidity_based (humidity cw)
             (temperature_based (temperature cw)
               \<lparr>immediate_actions = [], weekly_planning = [], crop_care = [],
                irrigation = [], pest_disease_alerts = []\<rparr>)))) = Inr s5"
    "generate_agricultural_suggestions cw forecast now = Inr (seasonal (month now) s5)"
proof -
  from get_forecast_summary_total obtain fs where fs: "get_forecast_summary forecast = Inr fs"
    by blast
  from forecast_based_total obtain s5 where
    s5: "forecast_based (temperature cw) fs
       (wind_based (wind_speed cw)
         (condition_based (lower (description cw))
           (humidity_based (humidity cw)
             (temperature_based (temperature cw)
               \<lparr>immediate_actions = [], weekly_planning = [], crop_care = [],
                irrigation = [], pest_disease_alerts = []\<rparr>)))) = Inr s5"
    by blast
  have "generate_agricultural_suggestions cw forecast now = Inr (seasonal (month now) s5)"
    by (simp add: generate_agricultural_suggestions_def Let_def fs s5)
  with fs s5 show ?thesis by (rule that)
qed

lemma forecast_based_frame:
  assumes "forecast_based temp fs s = Inr s'"
  shows "immediate_actions s' = immediate_actions s"
    and "crop_care s' = crop_care s"
    and "pest_disease_alerts s' = pest_disease_alerts s"
    and "\<exists>ws. weekly_planning s' = weekly_planning s @ ws \<and>
           set ws \<subseteq> {''Heavy rain expected - prepare drainage and postpone outdoor activities'',
                      ''Temperature rising - prepare for increased water needs'',
                      ''Temperature dropping - protect sensitive crops''}"
    and "\<exists>is. irrigation s' = irrigation s @ is \<and>
           set is \<subseteq> {''Reduce watering schedule due to expected rainfall'',
                      ''No rain expected - maintain regular watering schedule''}"
proof -
  have "(fs = EmptyDict \<or> fs = SummaryList []) \<and> s' = s \<or>
        (\<exists>days. days \<noteq> [] \<and> fs = SummaryList days)"
    using assms by (cases fs) (auto simp: forecast_based_def)
  then show "immediate_actions s' = immediate_actions s"
    and "crop_care s' = crop_care s"
    and "pest_disease_alerts s' = pest_disease_alerts s"
    and "\<exists>ws. weekly_planning s' = weekly_planning s @ ws \<and>
           set ws \<subseteq> {''Heavy rain expected - prepare drainage and postpone outdoor activities'',
                      ''Temperature rising - prepare for increased water needs'',
                      ''Temperature dropping - protect sensitive crops''}"
    and "\<exists>is. irrigation s' = irrigation s @ is \<and>
           set is \<subseteq> {''Reduce watering schedule due to expected rainfall'',
                      ''No rain expected - maintain regular watering schedule''}"
    using assms by (auto simp: forecast_based_SummaryList)
qed

lemma in_set_if1: "(y \<in> set (if c then [x] else [])) = (c \<and> y = x)"
  by (cases c) simp_all

lemma in_set_if2:
  "(y \<in> set (if c then [x] else if d then [z] else [])) = ((c \<and> y = x) \<or> (\<not> c \<and> d \<and> y = z))"
  by (cases c; cases d) simp_all

text \<open>
  The result in closed form: each list is what the groups append in order, with \<open>fi\<close>
  and \<open>fw\<close> the items of the planning group for \<^verbatim>\<open>irrigation\<close> and
  \<^verbatim>\<open>weekly_planning\<close>.
\<close>

lemma generate_fields:
  obtains s fi fw where
    "generate_agricultural_suggestions cw forecast now = Inr s"
    "immediate_actions s =
       (if temperature cw < 5 then [''Protect sensitive crops from frost damage'']
        else if temperature cw > 35 then [''Provide shade for sensitive crops during peak heat'']
        else []) @
       (if sublist ''rain'' (lower (description cw))
        then [''Postpone irrigation - natural rainfall occurring''] else []) @
       (if wind_speed cw > 10 then [''Secure tall plants and check for wind damage''] else [])"
    "crop_care s =
       (if temperature cw < 5
        then [''Consider covering young plants or moving potted plants indoors''] else []) @
       (if humidity cw > 80 then [''Ensure good air circulation around plants''] else []) @
       (if sublist ''rain'' (lower (description cw))
        then [''Check for waterlogging in low-lying areas''] else []) @
       (if wind_speed cw > 10
        then [''Avoid spraying pesticides or fertilizers in windy conditions''] else []) @
       (if month now \<in> {12, 1, 2}
        then [''Winter season - focus on cold-hardy crops and protection''] else [])"
    "pest_disease_alerts s =
       (if humidity cw > 80
        then [''High humidity increases fungal disease risk - monitor crops closely'']
        else [])"
    "irrigation s =
       (if \<not> temperature cw < 5 \<and> temperature cw > 35
        then [''Increase watering frequency due to high temperatures''] else []) @
       (if \<not> humidity cw > 80 \<and> humidity cw < 30
        then [''Low humidity may increase water needs''] else []) @
       (if \<not> sublist ''rain'' (lower (description cw)) \<and>
           (sublist ''clear'' (lower (description cw)) \<or> sublist ''sunny'' (lower (description cw)))
        then [''Good conditions for watering early morning or evening''] else []) @
       fi @
       (if month now \<in> {6, 7, 8}
        then [''Summer season - maintain consistent watering and mulching''] else [])"
    "set fi \<subseteq> {''Reduce watering schedule due to expected rainfall'',
                ''No rain expected - maintain regular watering schedule''}"
    "weekly_planning s =
       (if \<not> sublist ''rain'' (lower (description cw)) \<and>
           (sublist ''clear'' (lower (description cw)) \<or> sublist ''sunny'' (lower (description cw)))
        then [''Ideal weather for field work and harvesting''] else []) @
       fw @
       (if month now \<in> {3, 4, 5}
        then [''Spring season - ideal time for planting and soil preparation'']
        else if month now \<in> {9, 10, 11}
        then [''Fall season - harvest time and winter preparation''] else [])"
    "set fw \<subseteq> {''Heavy rain expected - prepare drainage and postpone outdoor activities'',
                ''Temperature rising - prepare for increased water needs'',
                ''Temperature dropping - protect sensitive crops''}"
    "forecast = [] \<Longrightarrow> fw = [] \<and> fi = []"
    "\<And>days. get_forecast_summary forecast = Inr (SummaryList days) \<Longrightarrow>
       fw = (if sum_list (map total_rain (take 3 days)) > 10
             then [''Heavy rain expected - prepare drainage and postpone outdoor activities'']
             else []) @
            (if sum_list (map max_temp (take 3 days)) / real (length (take 3 days))
                  > temperature cw + 5
             then [''Temperature rising - prepare for increased water needs'']
             else if sum_list (map max_temp (take 3 days)) / real (length (take 3 days))
                  < temperature cw - 5
             then [''Temperature dropping - protect sensitive crops'']
             else []) \<and>
       fi = (if sum_list (map total_rain (take 3 days)) > 10
             then [''Reduce watering schedule due to expected rainfall'']
             else if sum_list (map total_rain (take 3 days)) < 1
             then [''No rain expected - maintain regular watering schedule'']
             else [])"
proof -
  let ?s4 = "wind_based (wind_speed cw)
         (condition_based (lower (description cw))
           (humidity_based (humidity cw)
             (temperature_based (temperature cw)
               \<lparr>immediate_actions = [], weekly_planning = [], crop_care = [],
                irrigation = [], pest_disease_alerts = []\<rparr>)))"
  obtain fs s5 where
    fs: "get_forecast_summary forecast = Inr fs" and
    s5: "forecast_based (temperature cw) fs ?s4 = Inr s5" and
    gen: "generate_agricultural_suggestions cw forecast now = Inr (seasonal (month now) s5)"
    by (rule generate_steps)
  from forecast_based_frame [OF s5] obtain fw fi where
    frame: "immediate_actions s5 = immediate_actions ?s4" "crop_care s5 = crop_care ?s4"
      "pest_disease_alerts s5 = pest_disease_alerts ?s4"
      "weekly_planning s5 = weekly_planning ?s4 @ fw"
      "set fw \<subseteq> {''Heavy rain expected - prepare drainage and postpone outdoor activities'',
                ''Temperature rising - prepare for increased water needs'',
                ''Temperature dropping - protect sensitive crops''}"
      "irrigation s5 = irrigation ?s4 @ fi"
      "set fi \<subseteq> {''Reduce watering schedule due to expected rainfall'',
                ''No rain expected - maintain regular watering schedule''}"
    by blast
  note fields = temperature_based_fields humidity_based_fields condition_based_fields
    wind_based_fields seasonal_fields
  have empty: "fw = [] \<and> fi = []" if "forecast = []"
  proof -
    have "fs = EmptyDict" using fs that by (simp add: get_forecast_summary_def)
    then have "s5 = ?s4" using s5 by (simp add: forecast_based_EmptyDict)
    then show ?thesis using frame(4,6) by simp
  qed
  have list: "fw = (if sum_list (map total_rain (take 3 days)) > 10
             then [''Heavy rain expected - prepare drainage and postpone outdoor activities'']
             else []) @
            (if sum_list (map max_temp (take 3 days)) / real (length (take 3 days))
                  > temperature cw + 5
             then [''Temperature rising - prepare for increased water needs'']
             else if sum_list (map max_temp (take 3 days)) / real (length (take 3 days))
                  < temperature cw - 5
             then [''Temperature dropping - protect sensitive crops'']
             else []) \<and>
       fi = (if sum_list (map total_rain (take 3 days)) > 10
             then [''Reduce watering schedule due to expected rainfall'']
             else if sum_list (map total_rain (take 3 days)) < 1
             then [''No rain expected - maintain regular watering schedule'']
             else [])"
    if d: "get_forecast_summary forecast = Inr (SummaryList days)" for days
  proof -
    have ne: "days \<noteq> []" using d by (rule summary_list_days_nonempty)
    have "fs = SummaryList days" using fs d by simp
    then have "Inr s5 = forecast_based (temperature cw) (SummaryList days) ?s4" using s5 by simp
    then have w: "weekly_planning s5 = weekly_planning ?s4 @
            (if sum_list (map total_rain (take 3 days)) > 10
             then [''Heavy rain expected - prepare drainage and postpone outdoor activities'']
             else []) @
            (if sum_list (map max_temp (take 3 days)) / real (length (take 3 days))
                  > temperature cw + 5
             then [''Temperature rising - prepare for increased water needs'']
             else if sum_list (map max_temp (take 3 days)) / real (length (take 3 days))
                  < temperature cw - 5
             then [''Temperature dropping - protect sensitive crops'']
             else [])"
      and i: "irrigation s5 = irrigation ?s4 @
            (if sum_list (map total_rain (take 3 days)) > 10
             then [''Reduce watering schedule due to expected rainfall'']
             else if sum_list (map total_rain (take 3 days)) < 1
             then [''No rain expected - maintain regular watering schedule'']
             else [])"
      unfolding forecast_based_SummaryList [OF ne] by simp_all
    show ?thesis using w i frame(4,6) by simp
  qed
  show ?thesis
  proof (rule that [of "seasonal (month now) s5" fi fw])
    show "generate_agricultural_suggestions cw forecast now = Inr (seasonal (month now) s5)"
      by (rule gen)
    show "set fi \<subseteq> {''Reduce watering schedule due to expected rainfall'',
                ''No rain expected - maintain regular watering schedule''}"
      by (rule frame(7))
    show "set fw \<subseteq> {''Heavy rain expected - prepare drainage and postpone outdoor activities'',
                ''Temperature rising - prepare for increased water needs'',
                ''Temperature dropping - protect sensitive crops''}"
      by (rule frame(5))
    show "forecast = [] \<Longrightarrow> fw = [] \<and> fi = []" by (rule empty)
  qed (simp_all only: list, simp_all add: fields frame)
qed

subsection \<open>Claims about the rule engine\<close>

text \<open>
  Claim C5. The rule engine always returns, and in what it returns each temperature item
  and each humidity item is there exactly when its strict inequality holds: the frost
  items when the temperature is below 5, the heat items when it is above 35, the fungal
  and airflow items when the humidity is above 80, the low-humidity item when it is below
  30. So a temperature of 5 or 35 gives none of the temperature items, a humidity of 80 or
  30 none of the humidity items, and a temperature of 3 gives the frost items and not the
  heat items, whatever the humidity, the wind, the forecast and the clock are.
\<close>

theorem temperature_and_humidity_rules_strict_exclusive:
  "\<exists>s. generate_agricultural_suggestions cw forecast now = Inr s \<and>
     (''Protect sensitive crops from frost damage'' \<in> set (immediate_actions s)
        \<longleftrightarrow> temperature cw < 5) \<and>
     (''Consider covering young plants or moving potted plants indoors'' \<in> set (crop_care s)
        \<longleftrightarrow> temperature cw < 5) \<and>
     (''Provide shade for sensitive crops during peak heat'' \<in> set (immediate_actions s)
        \<longleftrightarrow> temperature cw > 35) \<and>
     (''Increase watering frequency due to high temperatures'' \<in> set (irrigation s)
        \<longleftrightarrow> temperature cw > 35) \<and>
     (''High humidity increases fungal disease risk - monitor crops closely''
        \<in> set (pest_disease_alerts s) \<longleftrightarrow> humidity cw > 80) \<and>
     (''Ensure good air circulation around plants'' \<in> set (crop_care s)
        \<longleftrightarrow> humidity cw > 80) \<and>
     (''Low humidity may increase water needs'' \<in> set (irrigation s)
        \<longleftrightarrow> humidity cw < 30) \<and>
     (temperature cw = 5 \<or> temperature cw = 35 \<longrightarrow>
        ''Protect sensitive crops from frost damage'' \<notin> set (immediate_actions s) \<and>
        ''Consider covering young plants or moving potted plants indoors'' \<notin> set (crop_care s) \<and>
        ''Provide shade for sensitive crops during peak heat'' \<notin> set (immediate_actions s) \<and>
        ''Increase watering frequency due to high temperatures'' \<notin> set (irrigation s)) \<and>
     (humidity cw = 80 \<or> humidity cw = 30 \<longrightarrow>
        ''High humidity increases fungal disease risk - monitor crops closely''
          \<notin> set (pest_disease_alerts s) \<and>
        ''Ensure good air circulation around plants'' \<notin> set (crop_care s) \<and>
        ''Low humidity may increase water needs'' \<notin> set (irrigation s)) \<and>
     (temperature cw = 3 \<longrightarrow>
        ''Protect sensitive crops from frost damage'' \<in> set (immediate_actions s) \<and>
        ''Consider covering young plants or moving potted plants indoors'' \<in> set (crop_care s) \<and>
        ''Provide shade for sensitive crops during peak heat'' \<notin> set (immediate_actions s) \<and>
        ''Increase watering frequency due to high temperatures'' \<notin> set (irrigation s))"
proof -
  obtain s fi fw where
    gen: "generate_agricultural_suggestions cw forecast now = Inr s" and
    ia: "immediate_actions s =
       (if temperature cw < 5 then [''Protect sensitive crops from frost damage'']
        else if temperature cw > 35 then [''Provide shade for sensitive crops during peak heat'']
        else []) @
       (if sublist ''rain'' (lower (description cw))
        then [''Postpone irrigation - natural rainfall occurring''] else []) @
       (if wind_speed cw > 10 then [''Secure tall plants and check for wind damage''] else [])" and
    cc: "crop_care s =
       (if temperature cw < 5
        then [''Consider covering young plants or moving potted plants indoors''] else []) @
       (if humidity cw > 80 then [''Ensure good air circulation around plants''] else []) @
       (if sublist ''rain'' (lower (description cw))
        then [''Check for waterlogging in low-lying areas''] else []) @
       (if wind_speed cw > 10
        then [''Avoid spraying pesticides or fertilizers in windy conditions''] else []) @
       (if month now \<in> {12, 1, 2}
        then [''Winter season - focus on cold-hardy crops and protection''] else [])" and
    pd: "pest_disease_alerts s =
       (if humidity cw > 80
        then [''High humidity increases fungal disease risk - monitor crops closely'']
        else [])" and
    ir: "irrigation s =
       (if \<not> temperature cw < 5 \<and> temperature cw > 35
        then [''Increase watering frequency due to high temperatures''] else []) @
       (if \<not> humidity cw > 80 \<and> humidity cw < 30
        then [''Low humidity may increase water needs''] else []) @
       (if \<not> sublist ''rain'' (lower (description cw)) \<and>
           (sublist ''clear'' (lower (description cw)) \<or> sublist ''sunny'' (lower (description cw)))
        then [''Good conditions for watering early morning or evening''] else []) @
       fi @
       (if month now \<in> {6, 7, 8}
        then [''Summer season - maintain consistent watering and mulching''] else [])" and
    fi: "set fi \<subseteq> {''Reduce watering schedule due to expected rainfall'',
                ''No rain expected - maintain regular watering schedule''}"
    by (rule generate_fields [of cw forecast now])
  have fi1: "''Increase watering frequency due to high temperatures'' \<notin> set fi"
    using fi by auto
  have fi2: "''Low humidity may increase water needs'' \<notin> set fi"
    using fi by auto
  have frost1: "''Protect sensitive crops from frost damage'' \<in> set (immediate_actions s)
        \<longleftrightarrow> temperature cw < 5"
    unfolding ia by (simp add: in_set_if1 in_set_if2)
  have frost2: "''Consider covering young plants or moving potted plants indoors'' \<in> set (crop_care s)
        \<longleftrightarrow> temperature cw < 5"
    unfolding cc by (simp add: in_set_if1)
  have heat1: "''Provide shade for sensitive crops during peak heat'' \<in> set (immediate_actions s)
        \<longleftrightarrow> temperature cw > 35"
    unfolding ia by (auto simp add: in_set_if1 in_set_if2)
  have heat2: "''Increase watering frequency due to high temperatures'' \<in> set (irrigation s)
        \<longleftrightarrow> temperature cw > 35"
    unfolding ir using fi1 by (auto simp add: in_set_if1)
  have fungal: "''High humidity increases fungal disease risk - monitor crops closely''
        \<in> set (pest_disease_alerts s) \<longleftrightarrow> humidity cw > 80"
    unfolding pd by (simp add: in_set_if1)
  have air: "''Ensure good air circulation around plants'' \<in> set (crop_care s)
        \<longleftrightarrow> humidity cw > 80"
    unfolding cc by (simp add: in_set_if1)
  have dry: "''Low humidity may increase water needs'' \<in> set (irrigation s)
        \<longleftrightarrow> humidity cw < 30"
    unfolding ir using fi2 by (auto simp add: in_set_if1)
  show ?thesis
    apply (rule exI [of _ s])
    unfolding frost1 frost2 heat1 heat2 fungal air dry
    using gen by auto
qed

text \<open>
  The theorem at a sample with temperature 3, humidity 80 and wind 10, and at samples
  with temperature 5 and humidity 30, and temperature 35 and humidity 80.
\<close>

theorem temperature_and_humidity_rules_strict_exclusive_witness:
  "temperature frosty_current = 3 \<and> humidity frosty_current = 80 \<and>
   (\<exists>s. generate_agricultural_suggestions frosty_current wet_forecast noon_new_year = Inr s \<and>
      ''Protect sensitive crops from frost damage'' \<in> set (immediate_actions s) \<and>
      ''Consider covering young plants or moving potted plants indoors'' \<in> set (crop_care s) \<and>
      ''Provide shade for sensitive crops during peak heat'' \<notin> set (immediate_actions s) \<and>
      ''Increase watering frequency due to high temperatures'' \<notin> set (irrigation s) \<and>
      ''High humidity increases fungal disease risk - monitor crops closely''
          \<notin> set (pest_disease_alerts s) \<and>
      ''Ensure good air circulation around plants'' \<notin> set (crop_care s) \<and>
      ''Low humidity may increase water needs'' \<notin> set (irrigation s)) \<and>
   temperature boundary_current = 5 \<and> humidity boundary_current = 30 \<and>
   (\<exists>s. generate_agricultural_suggestions boundary_current [] noon_new_year = Inr s \<and>
      ''Protect sensitive crops from frost damage'' \<notin> set (immediate_actions s) \<and>
      ''Consider covering young plants or moving potted plants indoors'' \<notin> set (crop_care s) \<and>
      ''Provide shade for sensitive crops during peak heat'' \<notin> set (immediate_actions s) \<and>
      ''Increase watering frequency due to high temperatures'' \<notin> set (irrigation s) \<and>
      ''High humidity increases fungal disease risk - monitor crops closely''
          \<notin> set (pest_disease_alerts s) \<and>
      ''Ensure good air circulation around plants'' \<notin> set (crop_care s) \<and>
      ''Low humidity may increase water needs'' \<notin> set (irrigation s)) \<and>
   temperature hot_boundary_current = 35 \<and> humidity hot_boundary_current = 80 \<and>
   (\<exists>s. generate_agricultural_suggestions hot_boundary_current [] noon_new_year = Inr s \<and>
      ''Protect sensitive crops from frost damage'' \<notin> set (immediate_actions s) \<and>
      ''Consider covering young plants or moving potted plants indoors'' \<notin> set (crop_care s) \<and>
      ''Provide shade for sensitive crops during peak heat'' \<notin> set (immediate_actions s) \<and>
      ''Increase watering frequency due to high temperatures'' \<notin> set (irrigation s) \<and>
      ''High humidity increases fungal disease risk - monitor crops closely''
          \<notin> set (pest_disease_alerts s) \<and>
      ''Ensure good air circulation around plants'' \<notin> set (crop_care s) \<and>
      ''Low humidity may increase water needs'' \<notin> set (irrigation s))"
proof -
  have a: "temperature frosty_current = 3" "humidity frosty_current = 80"
    by (simp_all add: frosty_current_def current_sample_def)
  have b: "temperature boundary_current = 5" "humidity boundary_current = 30"
    by (simp_all add: boundary_current_def current_sample_def)
  have c: "temperature hot_boundary_current = 35" "humidity hot_boundary_current = 80"
    by (simp_all add: hot_boundary_current_def current_sample_def)
  from temperature_and_humidity_rules_strict_exclusive
         [of frosty_current wet_forecast noon_new_year] a
  have ra: "\<exists>s. generate_agricultural_suggestions frosty_current wet_forecast noon_new_year = Inr s \<and>
      ''Protect sensitive crops from frost damage'' \<in> set (immediate_actions s) \<and>
      ''Consider covering young plants or moving potted plants indoors'' \<in> set (crop_care s) \<and>
      ''Provide shade for sensitive crops during peak heat'' \<notin> set (immediate_actions s) \<and>
      ''Increase watering frequency due to high temperatures'' \<notin> set (irrigation s) \<and>
      ''High humidity increases fungal disease risk - monitor crops closely''
          \<notin> set (pest_disease_alerts s) \<and>
      ''Ensure good air circulation around plants'' \<notin> set (crop_care s) \<and>
      ''Low humidity may increase water needs'' \<notin> set (irrigation s)"
    by blast
  from temperature_and_humidity_rules_strict_exclusive
         [of boundary_current "[]" noon_new_year] b
  have rb: "\<exists>s. generate_agricultural_suggestions boundary_current [] noon_new_year = Inr s \<and>
      ''Protect sensitive crops from frost damage'' \<notin> set (immediate_actions s) \<and>
      ''Consider covering young plants or moving potted plants indoors'' \<notin> set (crop_care s) \<and>
      ''Provide shade for sensitive crops during peak heat'' \<notin> set (immediate_actions s) \<and>
      ''Increase watering frequency due to high temperatures'' \<notin> set (irrigation s) \<and>
      ''High humidity increases fungal disease risk - monitor crops closely''
          \<notin> set (pest_disease_alerts s) \<and>
      ''Ensure good air circulation around plants'' \<notin> set (crop_care s) \<and>
      ''Low humidity may increase water needs'' \<notin> set (irrigation s)"
    by blast
  from temperature_and_humidity_rules_strict_exclusive
         [of hot_boundary_current "[]" noon_new_year] c
  have rc: "\<exists>s. generate_agricultural_suggestions hot_boundary_current [] noon_new_year = Inr s \<and>
      ''Protect sensitive crops from frost damage'' \<notin> set (immediate_actions s) \<and>
      ''Consider covering young plants or moving potted plants indoors'' \<notin> set (crop_care s) \<and>
      ''Provide shade for sensitive crops during peak heat'' \<notin> set (immediate_actions s) \<and>
      ''Increase watering frequency due to high temperatures'' \<notin> set (irrigation s) \<and>
      ''High humidity increases fungal disease risk - monitor crops closely''
          \<notin> set (pest_disease_alerts s) \<and>
      ''Ensure good air circulation around plants'' \<notin> set (crop_care s) \<and>
      ''Low humidity may increase water needs'' \<notin> set (irrigation s)"
    by blast
  from a ra b rb c rc show ?thesis by (intro conjI)
qed



text \<open>
  Claim C8. The rule engine is a function of the current sample, the forecast and the
  clock reading, with no access to the world; it always returns a record of the five
  lists, never an exception; and two clock readings of the same calendar date give the
  same result.
\<close>

theorem rule_engine_total_and_clock_date_only:
  assumes "year now1 = year now2" and "month now1 = month now2" and "day now1 = day now2"
  shows "\<exists>s. generate_agricultural_suggestions cw forecast now1 = Inr s \<and>
              generate_agricultural_suggestions cw forecast now2 = Inr s"
proof -
  obtain fs s5 where
    "generate_agricultural_suggestions cw forecast now1 = Inr (seasonal (month now1) s5)"
    "get_forecast_summary forecast = Inr fs"
    "forecast_based (temperature cw) fs
       (wind_based (wind_speed cw)
         (condition_based (lower (description cw))
           (humidity_based (humidity cw)
             (temperature_based (temperature cw)
               \<lparr>immediate_actions = [], weekly_planning = [], crop_care = [],
                irrigation = [], pest_disease_alerts = []\<rparr>)))) = Inr s5"
    by (rule generate_steps [of forecast cw now1])
  moreover from this have
    "generate_agricultural_suggestions cw forecast now2 = Inr (seasonal (month now2) s5)"
    by (simp add: generate_agricultural_suggestions_def Let_def)
  ultimately show ?thesis using assms(2) by simp
qed

text \<open>The theorem at noon and at 21:30:05 of 1 January 2024.\<close>

theorem rule_engine_total_and_clock_date_only_witness:
  "year noon_new_year = year evening_new_year \<and> month noon_new_year = month evening_new_year \<and>
   day noon_new_year = day evening_new_year \<and> hour noon_new_year \<noteq> hour evening_new_year \<and>
   (\<exists>s. generate_agricultural_suggestions frosty_current wet_forecast noon_new_year = Inr s \<and>
        generate_agricultural_suggestions frosty_current wet_forecast evening_new_year = Inr s)"
proof -
  have h: "year noon_new_year = year evening_new_year"
    "month noon_new_year = month evening_new_year" "day noon_new_year = day evening_new_year"
    by (simp_all add: noon_new_year_def evening_new_year_def)
  have d: "hour noon_new_year \<noteq> hour evening_new_year"
    by (simp add: noon_new_year_def evening_new_year_def)
  from h d rule_engine_total_and_clock_date_only [OF h, of frosty_current wet_forecast]
  show ?thesis by (intro conjI)
qed

section \<open>Properties of the normalizer and the orchestrator\<close>

subsection \<open>When the formatting functions return\<close>

lemma first_item_eq_Inr [simp]: "first_item xs = Inr x \<longleftrightarrow> (\<exists>rest. xs = x # rest)"
  by (cases xs) (auto simp: first_item_def)














subsection \<open>The requests of the orchestrator\<close>

lemma get_current_weather_requests:
  "requests_sent (snd (get_current_weather svc env lat lon w)) =
     requests_sent w @ [base_url svc @ ''/weather'']"
  by (simp add: get_current_weather_def Let_def split: sum.splits)

lemma get_weather_forecast_requests:
  "requests_sent (snd (get_weather_forecast svc env lat lon w)) =
     requests_sent w @ [base_url svc @ ''/forecast'']"
  by (simp add: get_weather_forecast_def Let_def split: sum.splits)

lemma get_weather_forecast_result:
  "fst (get_weather_forecast svc env lat lon w) = fst (get_weather_forecast svc env lat lon w')"
  by (simp add: get_weather_forecast_def Let_def split: sum.splits)

lemma get_agricultural_suggestions_requests:
  "requests_sent (snd (get_agricultural_suggestions svc env lat lon w)) =
     requests_sent w @ [base_url svc @ ''/weather'', base_url svc @ ''/forecast'']"
proof -
  obtain r1 w1 where c: "get_current_weather svc env lat lon w = (r1, w1)" by fastforce
  obtain r2 w2 where f: "get_weather_forecast svc env lat lon w1 = (r2, w2)" by fastforce
  have "requests_sent w1 = requests_sent w @ [base_url svc @ ''/weather'']"
    using get_current_weather_requests [of svc env lat lon w] c by simp
  moreover have "requests_sent w2 = requests_sent w1 @ [base_url svc @ ''/forecast'']"
    using get_weather_forecast_requests [of svc env lat lon w1] f by simp
  moreover have "requests_sent (snd (get_agricultural_suggestions svc env lat lon w)) =
                 requests_sent w2"
    by (simp add: get_agricultural_suggestions_def c f split: api_result.splits sum.splits)
  ultimately show ?thesis by simp
qed

subsection \<open>Claims about the normalizer and the orchestrator\<close>




text \<open>
  Claim C4, as the code has it. When the current-weather fetch or the forecast fetch
  fails, \<^verbatim>\<open>get_agricultural_suggestions\<close> returns a failure whose text is the fixed
  \<^verbatim>\<open>Failed to fetch weather data for suggestions\<close>, with no payload, and it has
  requested both endpoints, the weather endpoint first.
\<close>

theorem fetch_failure_gives_fixed_failure:
  assumes "(\<exists>e. fst (get_current_weather svc env lat lon w) = Failure e) \<or>
           (\<exists>e. fst (get_weather_forecast svc env lat lon w) = Failure e)"
  shows "fst (get_agricultural_suggestions svc env lat lon w) =
           Failure ''Failed to fetch weather data for suggestions'' \<and>
         requests_sent (snd (get_agricultural_suggestions svc env lat lon w)) =
           requests_sent w @ [base_url svc @ ''/weather'', base_url svc @ ''/forecast'']"
proof -
  obtain r1 w1 where c: "get_current_weather svc env lat lon w = (r1, w1)" by fastforce
  obtain r2 w2 where f: "get_weather_forecast svc env lat lon w1 = (r2, w2)" by fastforce
  have "fst (get_weather_forecast svc env lat lon w) = r2"
    using get_weather_forecast_result [of svc env lat lon w w1] f by simp
  with assms c have "(\<exists>e. r1 = Failure e) \<or> (\<exists>e. r2 = Failure e)" by simp
  then have "fst (get_agricultural_suggestions svc env lat lon w) =
           Failure ''Failed to fetch weather data for suggestions''"
    by (auto simp: get_agricultural_suggestions_def c f split: api_result.splits)
  then show ?thesis using get_agricultural_suggestions_requests by simp
qed

text \<open>The theorem in an environment whose weather endpoint times out.\<close>

theorem fetch_failure_gives_fixed_failure_witness:
  "fst (get_current_weather example_service timeout_environment 19 72 fresh_world) =
     Failure ''Failed to fetch weather data: Read timed out'' \<and>
   fst (get_agricultural_suggestions example_service timeout_environment 19 72 fresh_world) =
     Failure ''Failed to fetch weather data for suggestions'' \<and>
   requests_sent (snd (get_agricultural_suggestions example_service timeout_environment 19 72
      fresh_world)) =
     [''https://api.openweathermap.org/data/2.5/weather'',
      ''https://api.openweathermap.org/data/2.5/forecast'']"
proof -
  have h: "fst (get_current_weather example_service timeout_environment 19 72 fresh_world) =
     Failure ''Failed to fetch weather data: Read timed out''"
    by code_simp
  then have "(\<exists>e. fst (get_current_weather example_service timeout_environment 19 72 fresh_world)
                    = Failure e) \<or>
             (\<exists>e. fst (get_weather_forecast example_service timeout_environment 19 72 fresh_world)
                    = Failure e)"
    by blast
  from fetch_failure_gives_fixed_failure [OF this]
  have "fst (get_agricultural_suggestions example_service timeout_environment 19 72 fresh_world) =
          Failure ''Failed to fetch weather data for suggestions''"
    and "requests_sent (snd (get_agricultural_suggestions example_service timeout_environment 19 72
          fresh_world)) =
          requests_sent fresh_world @
            [base_url example_service @ ''/weather'', base_url example_service @ ''/forecast'']"
    by simp_all
  moreover have "requests_sent fresh_world @
            [base_url example_service @ ''/weather'', base_url example_service @ ''/forecast''] =
     [''https://api.openweathermap.org/data/2.5/weather'',
      ''https://api.openweathermap.org/data/2.5/forecast'']"
    by (simp add: fresh_world_def example_service_def)
  ultimately show ?thesis using h by simp
qed

text \<open>
  Claim C4 as worded (the failure carries the cause, and the second fetch is not issued
  after the first has failed) fails when the weather endpoint times out: the fetch's own
  failure names the cause, the result of \<^verbatim>\<open>get_agricultural_suggestions\<close> does not, and
  the forecast endpoint has been requested.
\<close>

theorem cause_dropped_and_no_short_circuit_counterexample:
  "fst (get_current_weather example_service timeout_environment 19 72 fresh_world) =
     Failure ''Failed to fetch weather data: Read timed out'' \<and>
   get_agricultural_suggestions example_service timeout_environment 19 72 fresh_world =
     (Failure ''Failed to fetch weather data for suggestions'',
      \<lparr>requests_sent = [''https://api.openweathermap.org/data/2.5/weather'',
                         ''https://api.openweathermap.org/data/2.5/forecast''],
       error_log = [''Weather API request error: Read timed out'']\<rparr>) \<and>
   \<not> sublist ''Read timed out'' ''Failed to fetch weather data for suggestions''"
proof (intro conjI)
  show "fst (get_current_weather example_service timeout_environment 19 72 fresh_world) =
     Failure ''Failed to fetch weather data: Read timed out''"
    by code_simp
  show "get_agricultural_suggestions example_service timeout_environment 19 72 fresh_world =
     (Failure ''Failed to fetch weather data for suggestions'',
      \<lparr>requests_sent = [''https://api.openweathermap.org/data/2.5/weather'',
                         ''https://api.openweathermap.org/data/2.5/forecast''],
       error_log = [''Weather API request error: Read timed out'']\<rparr>)"
    by code_simp
  show "\<not> sublist ''Read timed out'' ''Failed to fetch weather data for suggestions''"
    by code_simp
qed

end
